theory Spec2Isabelle
  imports Main "HOL-Library.AList"
begin

section \<open>Values shared by the ingress and the worker\<close>

text \<open>
  Instants are wall-clock nanoseconds since the Unix epoch, durations are nanoseconds.
  The instants the rate limiter compares are readings of \<^verbatim>\<open>time.Now().UTC()\<close>,
  which carry no monotonic part.
\<close>

type_synonym time = int

definition Hour :: int where
  "Hour = 3600000000000"

text \<open>
  A finite float64 is a sign, a mantissa and a binary exponent:
  \<open>Float64 s m e\<close> stands for \<open>(-1)^s * m * 2^e\<close>. JSON numbers decode into these
  (never NaN or an infinity).
\<close>

datatype float64 = Float64 bool nat int

text \<open>
  What \<^verbatim>\<open>encoding/json\<close> decodes into an \<^verbatim>\<open>interface{}\<close>. An object is the Go
  map it decodes into: its members with distinct keys.
\<close>

datatype json =
    JNull
  | JBool bool
  | JNumber float64
  | JString string
  | JArray "json list"
  | JObject "(string \<times> json) list"

text \<open>
  A \<^verbatim>\<open>map[string]interface{}\<close> is an association list with distinct keys;
  \<open>map_of\<close> reads a key and \<open>length\<close> is Go's \<^verbatim>\<open>len\<close>.
\<close>

type_synonym go_map = "(string \<times> json) list"

subsection \<open>Formatting, as package fmt does it\<close>

definition digit_char :: "nat \<Rightarrow> char" where
  "digit_char n = ''0123456789abcdef'' ! n"

fun show_nat :: "nat \<Rightarrow> string" where
  "show_nat n = (if n < 10 then [digit_char n] else show_nat (n div 10) @ [digit_char (n mod 10)])"

declare show_nat.simps [simp del]

text \<open>\<^verbatim>\<open>%d\<close> of an integer.\<close>

definition show_int :: "int \<Rightarrow> string" where
  "show_int i = (if i < 0 then ''-'' @ show_nat (nat (- i)) else show_nat (nat i))"

text \<open>
  \<^verbatim>\<open>%.0f\<close> of a float64: the exact value rounded to the nearest integer, a tie
  going to the even neighbour, after the sign of the float.
\<close>

definition round_half_even :: "nat \<Rightarrow> int \<Rightarrow> nat" where
  "round_half_even m e =
     (if 0 \<le> e then m * 2 ^ nat e
      else (let d = 2 ^ nat (- e); q = m div d; r = m mod d
            in if 2 * r < d then q
               else if d < 2 * r then q + 1
               else if even q then q else q + 1))"

definition Sprintf_f0 :: "float64 \<Rightarrow> string" where
  "Sprintf_f0 x = (case x of Float64 s m e \<Rightarrow>
     (if s then ''-'' else []) @ show_nat (round_half_even m e))"

text \<open>\<^verbatim>\<open>%x\<close> of a string: two lower-case hex digits per byte.\<close>

definition hex_byte :: "char \<Rightarrow> string" where
  "hex_byte c = [digit_char (of_char c div 16), digit_char (of_char c mod 16)]"

definition hex_string :: "string \<Rightarrow> string" where
  "hex_string s = concat (map hex_byte s)"

fun join_space :: "string list \<Rightarrow> string" where
  "join_space [] = []"
| "join_space [s] = s"
| "join_space (s # t # ss) = s @ '' '' @ join_space (t # ss)"

text \<open>\<^verbatim>\<open>%x\<close> of a \<^verbatim>\<open>[]string\<close>: the elements in hex, space separated, in brackets.\<close>

definition Sprintf_x :: "string list \<Rightarrow> string" where
  "Sprintf_x ss = ''['' @ join_space (map hex_string ss) @ '']''"

section \<open>Ingress: identity assignment\<close>

text \<open>
  \<^verbatim>\<open>generateWebhookID\<close> (package handlers). \<open>now\<close> is the reading of
  \<^verbatim>\<open>time.Now().UnixNano()\<close> the fallback uses.
\<close>

definition idFields :: "string list" where
  "idFields = [''webhook_id'', ''message_id'', ''event_id'', ''delivery_id'', ''tracking_id'']"

fun first_id :: "go_map \<Rightarrow> string list \<Rightarrow> string option" where
  "first_id data [] = None"
| "first_id data (field # fields) =
     (case map_of data field of
        Some (JString val) \<Rightarrow> (if val \<noteq> [] then Some val else first_id data fields)
      | _ \<Rightarrow> first_id data fields)"

definition string_component :: "go_map \<Rightarrow> string \<Rightarrow> string list" where
  "string_component data k =
     (case map_of data k of
        Some (JString val) \<Rightarrow> (if val \<noteq> [] then [val] else [])
      | _ \<Rightarrow> [])"

definition components :: "go_map \<Rightarrow> string list" where
  "components data =
     string_component data ''campaign_id''
     @ string_component data ''email''
     @ (case map_of data ''ts'' of Some (JNumber val) \<Rightarrow> [Sprintf_f0 val] | _ \<Rightarrow> [])
     @ string_component data ''event''"

definition generateWebhookID :: "go_map \<Rightarrow> time \<Rightarrow> string" where
  "generateWebhookID data now =
     (case first_id data idFields of
        Some val \<Rightarrow> val
      | None \<Rightarrow>
          (if length (components data) > 0 then ''mc_'' @ Sprintf_x (components data)
           else ''mc_'' @ show_int now))"

section \<open>Ingress: the rate limiter\<close>

text \<open>
  \<^verbatim>\<open>RateLimiter\<close>, \<^verbatim>\<open>clientLimit\<close>, \<^verbatim>\<open>NewRateLimiter\<close> and
  \<^verbatim>\<open>AllowRequest\<close> (package handlers). The counters are Go \<^verbatim>\<open>int\<close>s; on
  the free plan \<open>dailyCount\<close> never passes the daily limit, so no counter comes near
  the 64-bit range and unbounded integers stand for them. The mutex makes each call
  atomic: a call is one state transition.
\<close>

record clientLimit =
  dailyCount :: int
  lastReset :: time
  webhookCount :: int
  isPremium :: bool

record RateLimiter =
  limits :: "string \<rightharpoonup> clientLimit"
  freePlan_dailyLimit :: int
  freePlan_webhookLimit :: int
  premiumPlan_webhookLimit :: int

definition NewRateLimiter :: RateLimiter where
  "NewRateLimiter =
     \<lparr>limits = Map.empty,
      freePlan_dailyLimit = 10000,
      freePlan_webhookLimit = 20,
      premiumPlan_webhookLimit = 50\<rparr>"

text \<open>
  The first half of \<^verbatim>\<open>AllowRequest\<close>: the client's entry, created when missing
  (\<open>t0\<close> is the clock reading taken for a new entry), then reset when 24 hours have
  passed since \<open>lastReset\<close> (\<open>now\<close> is the second clock reading).
\<close>

definition current_limit :: "string \<Rightarrow> time \<Rightarrow> time \<Rightarrow> RateLimiter \<Rightarrow> clientLimit" where
  "current_limit clientID t0 now rl =
     (let limit = (case limits rl clientID of
                     Some l \<Rightarrow> l
                   | None \<Rightarrow> \<lparr>dailyCount = 0, lastReset = t0, webhookCount = 0, isPremium = False\<rparr>)
      in if now - lastReset limit \<ge> 24 * Hour
         then limit\<lparr>dailyCount := 0, lastReset := now\<rparr>
         else limit)"

definition store_limit :: "string \<Rightarrow> clientLimit \<Rightarrow> RateLimiter \<Rightarrow> RateLimiter" where
  "store_limit clientID limit rl = rl\<lparr>limits := (limits rl)(clientID \<mapsto> limit)\<rparr>"

definition AllowRequest :: "string \<Rightarrow> time \<Rightarrow> time \<Rightarrow> RateLimiter \<Rightarrow> bool \<times> RateLimiter" where
  "AllowRequest clientID t0 now rl =
     (let limit = current_limit clientID t0 now rl
      in if isPremium limit then
           (if webhookCount limit \<ge> premiumPlan_webhookLimit rl
            then (False, store_limit clientID limit rl)
            else (True, store_limit clientID (limit\<lparr>dailyCount := dailyCount limit + 1\<rparr>) rl))
         else if webhookCount limit \<ge> freePlan_webhookLimit rl
           then (False, store_limit clientID limit rl)
         else if dailyCount limit \<ge> freePlan_dailyLimit rl
           then (False, store_limit clientID limit rl)
         else (True, store_limit clientID (limit\<lparr>dailyCount := dailyCount limit + 1\<rparr>) rl))"

text \<open>Successive calls for one client, each with its two clock readings.\<close>

fun AllowRequests :: "string \<Rightarrow> (time \<times> time) list \<Rightarrow> RateLimiter \<Rightarrow> bool list \<times> RateLimiter" where
  "AllowRequests clientID [] rl = ([], rl)"
| "AllowRequests clientID (t # ts) rl =
     (let (ok, rl') = AllowRequest clientID (fst t) (snd t) rl;
          (oks, rl'') = AllowRequests clientID ts rl'
      in (ok # oks, rl''))"

text \<open>
  The limiter states a process can be in: \<^verbatim>\<open>NewRateLimiter\<close> builds the only
  limiter of a handler and \<^verbatim>\<open>AllowRequest\<close> is the only operation on it.
\<close>

inductive reachable :: "RateLimiter \<Rightarrow> bool" where
  reachable_new: "reachable NewRateLimiter"
| reachable_allow: "reachable rl \<Longrightarrow> reachable (snd (AllowRequest clientID t0 now rl))"

text \<open>Midnight (UTC) of the day an instant falls in.\<close>

definition utc_midnight :: "time \<Rightarrow> time" where
  "utc_midnight t = t - t mod (24 * Hour)"

section \<open>The event record\<close>

text \<open>
  \<^verbatim>\<open>models.WebhookEvent\<close>. \<open>Emails\<close> is a slice (nil and empty are both \<open>[]\<close>),
  \<open>ListID\<close> is an \<^verbatim>\<open>any\<close> whose nil is \<open>JNull\<close>. \<^verbatim>\<open>UpdatedAt\<close> is never read or
  written by the code modelled here and is left out.
\<close>

record WebhookEvent =
  WebhookID :: string
  WebhookType :: string
  Event :: string
  CampaignName :: string
  CampaignID :: string
  TagName :: string
  DateEvent :: string
  Timestamp :: int
  TimestampEvent :: int
  Emails :: "string list"
  Email :: string
  URL :: string
  ListID :: json
  Reason :: string
  ClientID :: string
  ReceivedAt :: time
  RetryCount :: int
  Status :: string

definition EventStatusPending :: string where "EventStatusPending = ''pending''"
definition EventStatusProcessed :: string where "EventStatusProcessed = ''processed''"
definition EventStatusFailed :: string where "EventStatusFailed = ''failed''"
definition EventStatusRetrying :: string where "EventStatusRetrying = ''retrying''"

text \<open>The zero value of the struct, but for the two fields a caller initialises.\<close>

definition new_event :: "string \<Rightarrow> time \<Rightarrow> WebhookEvent" where
  "new_event st received =
     \<lparr>WebhookID = [], WebhookType = [], Event = [], CampaignName = [], CampaignID = [],
      TagName = [], DateEvent = [], Timestamp = 0, TimestampEvent = 0, Emails = [],
      Email = [], URL = [], ListID = JNull, Reason = [], ClientID = [],
      ReceivedAt = received, RetryCount = 0, Status = st\<rparr>"

section \<open>Ingress: the webhook handler\<close>

text \<open>
  A request as the handlers see it. \<open>headers\<close> maps a canonical header name to its
  first value. \<open>body\<close> is the body stream, read through JSON decoders only: it lists
  what successive decoders started on the stream obtain, \<open>Some v\<close> for a document that
  parses and \<open>None\<close> for one that does not. A body that holds one JSON document (the
  decoder buffers all of it) is \<open>[Some v]\<close>, an empty body is \<open>[]\<close>. A decoder started
  on a drained stream fails with EOF.
\<close>

record request =
  Method :: string
  headers :: "string \<rightharpoonup> string"
  body :: "json option list"

record response =
  code :: nat
  reply :: "(string \<times> json) list"

text \<open>
  \<^verbatim>\<open>textproto.CanonicalMIMEHeaderKey\<close>: a name made of token bytes only gets an
  upper-case letter first and after every hyphen and lower-case letters elsewhere; any
  other name is left as it is.
\<close>

definition validHeaderFieldByte :: "char \<Rightarrow> bool" where
  "validHeaderFieldByte c =
     (let n = (of_char c :: nat)
      in (48 \<le> n \<and> n \<le> 57) \<or> (65 \<le> n \<and> n \<le> 90) \<or> (97 \<le> n \<and> n \<le> 122)
         \<or> List.member [33, 35, 36, 37, 38, 39, 42, 43, 45, 46, 94, 95, 96, 124, 126] n)"

fun canonicalize :: "bool \<Rightarrow> string \<Rightarrow> string" where
  "canonicalize upper [] = []"
| "canonicalize upper (c # cs) =
     (let n = (of_char c :: nat);
          c' = (if upper \<and> 97 \<le> n \<and> n \<le> 122 then char_of (n - 32)
                else if \<not> upper \<and> 65 \<le> n \<and> n \<le> 90 then char_of (n + 32)
                else c)
      in c' # canonicalize (c' = CHR ''-'') cs)"

definition CanonicalMIMEHeaderKey :: "string \<Rightarrow> string" where
  "CanonicalMIMEHeaderKey s = (if list_all validHeaderFieldByte s then canonicalize True s else s)"

text \<open>\<^verbatim>\<open>c.GetHeader(key)\<close>, that is \<^verbatim>\<open>c.Request.Header.Get(key)\<close>.\<close>

definition GetHeader :: "request \<Rightarrow> string \<Rightarrow> string" where
  "GetHeader r k = (case headers r (CanonicalMIMEHeaderKey k) of Some v \<Rightarrow> v | None \<Rightarrow> [])"

text \<open>
  Decoding one document into a \<^verbatim>\<open>map[string]interface{}\<close>: an object gives its
  members, \<^verbatim>\<open>null\<close> leaves the map nil (length 0), anything else is a type error.
\<close>

definition bind_map :: "json \<Rightarrow> go_map option" where
  "bind_map v = (case v of JObject m \<Rightarrow> Some m | JNull \<Rightarrow> Some [] | _ \<Rightarrow> None)"

text \<open>
  \<^verbatim>\<open>c.ShouldBindJSON(&m)\<close>: gin starts a new \<^verbatim>\<open>json.Decoder\<close> on
  \<^verbatim>\<open>c.Request.Body\<close> and keeps no copy of what it reads (the caching variant is
  \<^verbatim>\<open>ShouldBindBodyWith\<close>, which the code does not use). The call returns the map
  (\<open>None\<close> for an error) and leaves the stream behind what it read.
\<close>

definition ShouldBindJSON :: "request \<Rightarrow> go_map option \<times> request" where
  "ShouldBindJSON r =
     (case body r of
        [] \<Rightarrow> (None, r)
      | d # rest \<Rightarrow> ((case d of None \<Rightarrow> None | Some v \<Rightarrow> bind_map v), r\<lparr>body := rest\<rparr>))"

text \<open>\<^verbatim>\<open>WebhookMappingService.GetClientForWebhook\<close> reads \<open>WebhookToClient\<close>; a nil service is \<open>None\<close>.\<close>

type_synonym WebhookMappingService = "(string \<rightharpoonup> string) option"

definition extractClientID :: "WebhookMappingService \<Rightarrow> request \<Rightarrow> go_map \<Rightarrow> string" where
  "extractClientID webhookMapper r data =
     (let webhookID = GetHeader r ''Webhook-Id''
      in case (if webhookID \<noteq> [] then
                 (case webhookMapper of Some WebhookToClient \<Rightarrow> WebhookToClient webhookID | None \<Rightarrow> None)
               else None) of
           Some clientID \<Rightarrow> clientID
         | None \<Rightarrow> (if webhookID \<noteq> [] then webhookID else ''unknown''))"

text \<open>
  \<^verbatim>\<open>int64(val)\<close> of a float64 truncates towards zero. Outside the int64 range Go leaves
  the result to the implementation; amd64 gives the least int64, which is taken here.
\<close>

definition int64_of_float64 :: "float64 \<Rightarrow> int" where
  "int64_of_float64 x = (case x of Float64 s m e \<Rightarrow>
     (let mag = (if 0 \<le> e then int m * 2 ^ nat e else int m div 2 ^ nat (- e));
          v = (if s then - mag else mag)
      in if - (2 ^ 63) \<le> v \<and> v < 2 ^ 63 then v else - (2 ^ 63)))"

text \<open>The type assertions \<^verbatim>\<open>data[k].(string)\<close> and \<^verbatim>\<open>data[k].(float64)\<close>.\<close>

definition as_string :: "go_map \<Rightarrow> string \<Rightarrow> string option" where
  "as_string data k = (case map_of data k of Some (JString val) \<Rightarrow> Some val | _ \<Rightarrow> None)"

definition as_float64 :: "go_map \<Rightarrow> string \<Rightarrow> float64 option" where
  "as_float64 data k = (case map_of data k of Some (JNumber val) \<Rightarrow> Some val | _ \<Rightarrow> None)"

text \<open>The first key of the list whose value is a string, for the \<^verbatim>\<open>if ... else if\<close> chains.\<close>

fun first_string :: "go_map \<Rightarrow> string list \<Rightarrow> string option" where
  "first_string data [] = None"
| "first_string data (k # ks) =
     (case as_string data k of Some val \<Rightarrow> Some val | None \<Rightarrow> first_string data ks)"

fun string_entries :: "json list \<Rightarrow> string list" where
  "string_entries [] = []"
| "string_entries (JString emailStr # val) = emailStr # string_entries val"
| "string_entries (_ # val) = string_entries val"

text \<open>The field extraction of \<^verbatim>\<open>HandleWebhook\<close>, in the order of the source.\<close>

definition extract_fields :: "go_map \<Rightarrow> WebhookEvent \<Rightarrow> WebhookEvent" where
  "extract_fields data event =
     (let e1 = (case as_string data ''event'' of Some val \<Rightarrow> event\<lparr>Event := val\<rparr> | None \<Rightarrow> event);
          e2 = (case first_string data [''campaign_name'', ''campaign name''] of
                  Some val \<Rightarrow> e1\<lparr>CampaignName := val\<rparr> | None \<Rightarrow> e1);
          e3 = (case first_string data [''campaign_id'', ''camp_id''] of
                  Some val \<Rightarrow> e2\<lparr>CampaignID := val\<rparr> | None \<Rightarrow> e2);
          e4 = (case first_string data [''tag_name'', ''tag''] of
                  Some val \<Rightarrow> e3\<lparr>TagName := val\<rparr> | None \<Rightarrow> e3);
          e5 = (case as_string data ''date_event'' of Some val \<Rightarrow> e4\<lparr>DateEvent := val\<rparr> | None \<Rightarrow> e4);
          e6 = (case as_float64 data ''ts'' of
                  Some val \<Rightarrow> e5\<lparr>Timestamp := int64_of_float64 val\<rparr> | None \<Rightarrow> e5);
          e7 = (case as_float64 data ''ts_event'' of
                  Some val \<Rightarrow> e6\<lparr>TimestampEvent := int64_of_float64 val\<rparr> | None \<Rightarrow> e6);
          e8 = (case as_string data ''email'' of Some val \<Rightarrow> e7\<lparr>Email := val\<rparr> | None \<Rightarrow> e7);
          e9 = (case first_string data [''URL'', ''url'', ''click_url''] of
                  Some val \<Rightarrow> e8\<lparr>URL := val\<rparr> | None \<Rightarrow> e8);
          e10 = (case as_string data ''reason'' of Some val \<Rightarrow> e9\<lparr>Reason := val\<rparr> | None \<Rightarrow> e9);
          e11 = (case map_of data ''list_id'' of Some val \<Rightarrow> e10\<lparr>ListID := val\<rparr> | None \<Rightarrow> e10)
      in case map_of data ''emails'' of
           Some (JArray val) \<Rightarrow> e11\<lparr>Emails := string_entries val\<rparr>
         | _ \<Rightarrow> e11)"

text \<open>
  What a handler call reads from outside: the clock (the two readings of the rate
  limiter, the reading of the fallback identifier, the reading for \<open>ReceivedAt\<close>) and
  whether the broker refuses the publication.
\<close>

record environment =
  t_create :: time
  t_now :: time
  t_id :: time
  t_received :: time
  publish_fails :: bool

text \<open>
  The handler's state: its rate limiter and the events the publisher has handed to the
  broker (\<^verbatim>\<open>Publish\<close> attaches the event's \<open>webhook_id\<close>, \<open>webhook_type\<close> and
  \<open>client_id\<close> as message headers). Logging and metrics are left out.
\<close>

record ingress =
  rateLimiter :: RateLimiter
  published :: "WebhookEvent list"

definition HandleWebhook ::
  "WebhookMappingService \<Rightarrow> environment \<Rightarrow> request \<Rightarrow> ingress \<Rightarrow> response \<times> ingress" where
  "HandleWebhook webhookMapper env r st =
     (if Method r = ''GET'' then
        (\<lparr>code = 200, reply = [(''message'', JString ''Webhook endpoint is valid''),
                                (''status'', JString ''ok'')]\<rparr>, st)
      else case fst (ShouldBindJSON r) of
        None \<Rightarrow> (\<lparr>code = 400, reply = [(''error'', JString ''Invalid JSON payload'')]\<rparr>, st)
      | Some data \<Rightarrow>
          if GetHeader r ''User-Agent'' = ''MailerCloud'' then
            (\<lparr>code = 200, reply = [(''message'', JString ''Webhook URL verified''),
                                    (''success'', JBool True)]\<rparr>, st)
          else
            (let clientID = extractClientID webhookMapper r data;
                 (allowed, rl) = AllowRequest clientID (t_create env) (t_now env) (rateLimiter st)
             in if \<not> allowed then
                  (\<lparr>code = 429, reply = [(''error'', JString ''Rate limit exceeded'')]\<rparr>,
                   st\<lparr>rateLimiter := rl\<rparr>)
                else
                  (let event = extract_fields data
                         ((new_event EventStatusPending (t_received env))
                            \<lparr>WebhookID := generateWebhookID data (t_id env),
                             WebhookType := ''email_event'',
                             ClientID := clientID\<rparr>)
                   in if publish_fails env then
                        (\<lparr>code = 500, reply = [(''error'', JString ''Failed to process event'')]\<rparr>,
                         st\<lparr>rateLimiter := rl\<rparr>)
                      else
                        (\<lparr>code = 200, reply = [(''client_id'', JString (ClientID event)),
                                                (''message'', JString ''Event accepted''),
                                                (''webhook_id'', JString (WebhookID event))]\<rparr>,
                         st\<lparr>rateLimiter := rl, published := published st @ [event]\<rparr>))))"

section \<open>Ingress: the router\<close>

text \<open>\<^verbatim>\<open>config.SecurityConfig\<close>; \<open>APIKeys\<close> maps a client to its key.\<close>

record SecurityConfig =
  APIKeyHeader :: string
  APIKeys :: "(string \<times> string) list"

text \<open>\<^verbatim>\<open>requestBody["test"] != nil\<close>: the key is there and its value is not null.\<close>

definition not_nil :: "go_map \<Rightarrow> string \<Rightarrow> bool" where
  "not_nil m k = (case map_of m k of None \<Rightarrow> False | Some JNull \<Rightarrow> False | Some _ \<Rightarrow> True)"

definition validation_reply :: response where
  "validation_reply =
     \<lparr>code = 200, reply = [(''message'', JString ''Webhook validation successful''),
                             (''service'', JString ''MailerCloud Webhook Processor''),
                             (''status'', JString ''ok''),
                             (''success'', JBool True)]\<rparr>"

text \<open>
  The handler \<^verbatim>\<open>Setup\<close> registers for POST /webhook (api/router/router.go). It binds the
  body once itself; \<^verbatim>\<open>c.Request.Body = c.Request.Body\<close> changes nothing, so the
  webhook handler is called on the request as the binding left it.
\<close>

definition POST_webhook ::
  "SecurityConfig \<Rightarrow> WebhookMappingService \<Rightarrow> environment \<Rightarrow> request \<Rightarrow> ingress
     \<Rightarrow> response \<times> ingress" where
  "POST_webhook cfg webhookMapper env r st =
     (let webhookId = GetHeader r ''Webhook-Id'';
          userAgent = GetHeader r ''User-Agent'';
          (bound, r') = ShouldBindJSON r;
          isMailerCloudValidation =
            ((webhookId = ''WebhookID'' \<or> userAgent = ''MailerCloud'')
             \<or> (case bound of
                   Some requestBody \<Rightarrow>
                     length requestBody = 0 \<or> (length requestBody = 1 \<and> not_nil requestBody ''test'')
                 | None \<Rightarrow> False))
      in if isMailerCloudValidation then (validation_reply, st)
         else if webhookId \<noteq> [] \<and> webhookId \<noteq> ''WebhookID'' then
           HandleWebhook webhookMapper env r' st
         else
           (let apiKey = GetHeader r' (APIKeyHeader cfg)
            in if apiKey = [] then
                 (\<lparr>code = 401, reply = [(''error'', JString ''Missing API key'')]\<rparr>, st)
               else if \<not> List.member (map snd (APIKeys cfg)) apiKey then
                 (\<lparr>code = 401, reply = [(''error'', JString ''Invalid API key'')]\<rparr>, st)
               else HandleWebhook webhookMapper env r' st))"

section \<open>Storage\<close>

text \<open>
  The collection is the list of its documents, a document (\<^verbatim>\<open>bson.M\<close>) an association
  list with distinct keys. A storage call that fails leaves the collection as it was.
\<close>

datatype bson =
    BString string
  | BInt int
  | BTime time
  | BStrings "string list"
  | BValue json

type_synonym document = "(string \<times> bson) list"

type_synonym collection = "document list"

definition optional_string :: "string \<Rightarrow> string \<Rightarrow> document" where
  "optional_string k v = (if v \<noteq> [] then [(k, BString v)] else [])"

text \<open>The document \<^verbatim>\<open>InsertEvent\<close> builds for an event (package storage).\<close>

definition insert_document :: "WebhookEvent \<Rightarrow> document" where
  "insert_document event =
     [(''webhook_id'', BString (WebhookID event)),
      (''webhook_type'', BString (WebhookType event)),
      (''client_id'', BString (ClientID event)),
      (''event'', BString (Event event)),
      (''received_at'', BTime (ReceivedAt event)),
      (''status'', BString (Status event)),
      (''retry_count'', BInt (RetryCount event))]
     @ optional_string ''campaign_id'' (CampaignID event)
     @ optional_string ''campaign_name'' (CampaignName event)
     @ optional_string ''tag_name'' (TagName event)
     @ optional_string ''date_event'' (DateEvent event)
     @ optional_string ''url'' (URL event)
     @ optional_string ''email'' (Email event)
     @ (if length (Emails event) > 0 then [(''emails'', BStrings (Emails event))] else [])
     @ (if ListID event \<noteq> JNull then [(''list_id'', BValue (ListID event))] else [])
     @ optional_string ''reason'' (Reason event)"

text \<open>
  \<^verbatim>\<open>InsertEvent\<close>: \<open>fails\<close> says whether \<^verbatim>\<open>InsertOne\<close> returns an error. The
  result is the error flag, the event (the call sets an empty \<open>Status\<close> through the
  pointer) and the collection.
\<close>

definition InsertEvent :: "bool \<Rightarrow> WebhookEvent \<Rightarrow> collection \<Rightarrow> bool \<times> WebhookEvent \<times> collection" where
  "InsertEvent fails event0 coll =
     (let event = (if Status event0 = [] then event0\<lparr>Status := EventStatusPending\<rparr> else event0)
      in if fails then (True, event, coll)
         else (False, event, coll @ [insert_document event]))"

fun update_one :: "(document \<Rightarrow> bool) \<Rightarrow> (document \<Rightarrow> document) \<Rightarrow> collection \<Rightarrow> collection" where
  "update_one p f [] = []"
| "update_one p f (d # ds) = (if p d then f d # ds else d # update_one p f ds)"

text \<open>\<^verbatim>\<open>UpdateEventStatus\<close>: \<^verbatim>\<open>UpdateOne\<close> on the first document with the event's \<open>webhook_id\<close>.\<close>

definition UpdateEventStatus ::
  "bool \<Rightarrow> time \<Rightarrow> WebhookEvent \<Rightarrow> string \<Rightarrow> collection \<Rightarrow> bool \<times> collection" where
  "UpdateEventStatus fails now event status coll =
     (if fails then (True, coll)
      else (False,
            update_one (\<lambda>d. map_of d ''webhook_id'' = Some (BString (WebhookID event)))
              (\<lambda>d. AList.update ''updated_at'' (BTime now)
                     (AList.update ''retry_count'' (BInt (RetryCount event))
                       (AList.update ''status'' (BString status) d)))
              coll))"

section \<open>Worker\<close>

text \<open>
  What \<^verbatim>\<open>json.Unmarshal\<close> reads from a message body for the fields of
  \<^verbatim>\<open>WebhookEvent\<close> that carry a JSON name, a missing key giving the zero value. The
  fields tagged \<^verbatim>\<open>json:"-"\<close> (\<open>ClientID\<close>, \<open>ReceivedAt\<close>, \<open>UpdatedAt\<close>, \<open>RetryCount\<close>,
  \<open>Status\<close>) are not part of it: the decoder never writes them.
\<close>

record event_json =
  j_webhook_id :: string
  j_webhook_type :: string
  j_event :: string
  j_campaign_name :: string
  j_campaign_id :: string
  j_tag_name :: string
  j_date_event :: string
  j_ts :: int
  j_ts_event :: int
  j_emails :: "string list"
  j_email :: string
  j_URL :: string
  j_list_id :: json
  j_reason :: string

text \<open>A message body: bytes that \<^verbatim>\<open>json.Unmarshal\<close> rejects, or what it reads from them.\<close>

datatype payload = Malformed | Decoded event_json

definition Unmarshal :: "payload \<Rightarrow> WebhookEvent \<Rightarrow> WebhookEvent option" where
  "Unmarshal b event =
     (case b of
        Malformed \<Rightarrow> None
      | Decoded j \<Rightarrow>
          Some (event\<lparr>WebhookID := j_webhook_id j, WebhookType := j_webhook_type j,
                 Event := j_event j, CampaignName := j_campaign_name j,
                 CampaignID := j_campaign_id j, TagName := j_tag_name j,
                 DateEvent := j_date_event j, Timestamp := j_ts j,
                 TimestampEvent := j_ts_event j, Emails := j_emails j, Email := j_email j,
                 URL := j_URL j, ListID := j_list_id j, Reason := j_reason j\<rparr>))"

text \<open>An \<^verbatim>\<open>amqp.Delivery\<close>: the header table (\<open>None\<close> when nil) and the body.\<close>

record delivery =
  Headers :: "go_map option"
  Body :: payload

text \<open>How the worker settles a delivery with the broker.\<close>

datatype settlement =
    Ack
  | NackDrop
  | NackRequeue

record Worker =
  maxRetries :: int
  baseDelay :: int

definition NewWorker :: Worker where
  "NewWorker = \<lparr>maxRetries = 3, baseDelay = 10 * 1000000000\<rparr>"

text \<open>
  What the worker reads from outside while it handles one delivery: the clock and which
  storage calls fail (the insertion, the update to \<open>processed\<close>, the update that
  \<^verbatim>\<open>handleError\<close> makes).
\<close>

record attempt =
  w_received :: time
  w_updated :: time
  insert_fails :: bool
  processed_update_fails :: bool
  status_update_fails :: bool

definition header_string :: "go_map option \<Rightarrow> string \<Rightarrow> string" where
  "header_string hs k =
     (case hs of
        None \<Rightarrow> []
      | Some table \<Rightarrow> (case as_string table k of Some v \<Rightarrow> v | None \<Rightarrow> []))"

text \<open>The metadata block of the consumer loop of \<^verbatim>\<open>Start\<close>.\<close>

definition apply_headers :: "go_map option \<Rightarrow> WebhookEvent \<Rightarrow> WebhookEvent" where
  "apply_headers hs event =
     (let webhookID = header_string hs ''webhook_id'';
          webhookType = header_string hs ''webhook_type'';
          clientID = header_string hs ''client_id'';
          e1 = (if webhookID \<noteq> [] then event\<lparr>WebhookID := webhookID\<rparr> else event);
          e2 = (if webhookType \<noteq> [] then e1\<lparr>WebhookType := webhookType\<rparr> else e1)
      in if clientID \<noteq> [] then e2\<lparr>ClientID := clientID\<rparr> else e2)"

text \<open>\<^verbatim>\<open>processEvent\<close>: the error flag, the event and the collection.\<close>

definition processEvent :: "attempt \<Rightarrow> WebhookEvent \<Rightarrow> collection \<Rightarrow> bool \<times> WebhookEvent \<times> collection" where
  "processEvent a event0 coll =
     (case InsertEvent (insert_fails a) event0 coll of
        (True, event, coll') \<Rightarrow> (True, event, coll')
      | (False, event, coll') \<Rightarrow>
          (case UpdateEventStatus (processed_update_fails a) (w_updated a) event EventStatusProcessed coll' of
             (err, coll'') \<Rightarrow> (err, event, coll'')))"

text \<open>
  \<^verbatim>\<open>handleError\<close>: the settlement, the retry count whose backoff the worker slept
  (\<^verbatim>\<open>calculateBackoff\<close>, below, gives the delay for the draw it takes), and the
  collection. An error of the status update is only logged.
\<close>

definition handleError ::
  "Worker \<Rightarrow> attempt \<Rightarrow> WebhookEvent \<Rightarrow> collection \<Rightarrow> settlement \<times> int option \<times> collection" where
  "handleError w a event0 coll =
     (let event = event0\<lparr>RetryCount := RetryCount event0 + 1\<rparr>
      in if RetryCount event \<ge> maxRetries w then
           (Ack, None,
            snd (UpdateEventStatus (status_update_fails a) (w_updated a) event EventStatusFailed coll))
         else
           (NackRequeue, Some (RetryCount event),
            snd (UpdateEventStatus (status_update_fails a) (w_updated a) event EventStatusRetrying coll)))"

subsection \<open>The backoff delay\<close>

text \<open>
  float64 arithmetic: the exact result rounded to a 53-bit mantissa, to nearest with
  ties to even. The exponent is not bounded here: a result beyond the float64 range is
  an infinity in Go and converts to an integer like any value beyond int64, one below
  the range truncates to 0 either way.
\<close>

fun bit_length :: "nat \<Rightarrow> nat" where
  "bit_length n = (if n = 0 then 0 else Suc (bit_length (n div 2)))"

declare bit_length.simps [simp del]

text \<open>\<open>m / 2^k\<close> rounded to the nearest integer, a tie going to the even one.\<close>

definition round_to_even :: "nat \<Rightarrow> nat \<Rightarrow> nat" where
  "round_to_even m k =
     (let d = 2 ^ k; q = m div d; r = m mod d
      in if 2 * r < d then q
         else if d < 2 * r then q + 1
         else if even q then q else q + 1)"

definition round53 :: "bool \<Rightarrow> nat \<Rightarrow> int \<Rightarrow> float64" where
  "round53 s m e =
     (let k = bit_length m - 53
      in Float64 s (round_to_even m k) (e + int k))"

definition float64_of_int :: "int \<Rightarrow> float64" where
  "float64_of_int i = round53 (i < 0) (nat \<bar>i\<bar>) 0"

definition fmul :: "float64 \<Rightarrow> float64 \<Rightarrow> float64" where
  "fmul x y =
     (case x of Float64 s1 m1 e1 \<Rightarrow>
        (case y of Float64 s2 m2 e2 \<Rightarrow> round53 (s1 \<noteq> s2) (m1 * m2) (e1 + e2)))"

definition fadd :: "float64 \<Rightarrow> float64 \<Rightarrow> float64" where
  "fadd x y =
     (case x of Float64 s1 m1 e1 \<Rightarrow>
        (case y of Float64 s2 m2 e2 \<Rightarrow>
           (let e = min e1 e2;
                a = (if s1 then - int m1 else int m1) * 2 ^ nat (e1 - e);
                b = (if s2 then - int m2 else int m2) * 2 ^ nat (e2 - e);
                c = a + b
            in round53 (c < 0 \<or> (c = 0 \<and> s1 \<and> s2)) (nat \<bar>c\<bar>) e)))"

text \<open>
  \<^verbatim>\<open>rand.Float64()\<close> (math/rand/v2) returns \<open>k / 2^53\<close> for a 53-bit \<open>k\<close> taken
  from the generator; \<open>k\<close> is the draw. \<open>jitter\<close> is
  \<^verbatim>\<open>rand.Float64()*0.5 + 0.5\<close>.
\<close>

definition jitter :: "nat \<Rightarrow> float64" where
  "jitter k = fadd (fmul (Float64 False k (- 53)) (Float64 False 1 (- 1))) (Float64 False 1 (- 1))"

text \<open>
  \<^verbatim>\<open>calculateBackoff\<close> for the draw \<open>k\<close>. \<^verbatim>\<open>math.Pow(2, n)\<close> of a whole number
  \<open>n\<close> is the power of two itself; the result is \<^verbatim>\<open>time.Duration\<close> of the product,
  in nanoseconds.
\<close>

definition calculateBackoff :: "Worker \<Rightarrow> int \<Rightarrow> nat \<Rightarrow> int" where
  "calculateBackoff w retryCount k =
     (let backoff = fmul (float64_of_int (baseDelay w)) (Float64 False 1 (retryCount - 1))
      in int64_of_float64 (fmul backoff (jitter k)))"

text \<open>The draws \<^verbatim>\<open>rand.Float64()\<close> can return, as their numerators.\<close>

definition draws :: "nat set" where
  "draws = {..<2 ^ 53}"

text \<open>One iteration of the consumer loop of \<^verbatim>\<open>Start\<close>, for the delivery \<open>msg\<close>.\<close>

definition consume ::
  "Worker \<Rightarrow> attempt \<Rightarrow> delivery \<Rightarrow> collection \<Rightarrow> settlement \<times> int option \<times> collection" where
  "consume w a msg coll =
     (case Unmarshal (Body msg) (new_event EventStatusPending (w_received a)) of
        None \<Rightarrow> (NackDrop, None, coll)
      | Some event0 \<Rightarrow>
          (case processEvent a (apply_headers (Headers msg) event0) coll of
             (True, event, coll') \<Rightarrow> handleError w a event coll'
           | (False, event, coll') \<Rightarrow> (Ack, None, coll')))"

text \<open>
  The broker's queue and the loop over it. An acknowledged or dropped delivery leaves
  the queue; a delivery nacked with requeue goes back into it and is delivered again,
  after the deliveries already handed to this consumer. The loop has no exit of its
  own: \<open>run\<close> takes one \<open>attempt\<close> per iteration and stops when they are used up, or
  when the queue is empty (the loop then waits).
\<close>

record broker =
  docs :: collection
  queue :: "delivery list"
  acked :: "delivery list"
  dropped :: "delivery list"
  requeued :: nat
  backoffs :: "int list"

fun run :: "Worker \<Rightarrow> attempt list \<Rightarrow> broker \<Rightarrow> broker" where
  "run w [] s = s"
| "run w (a # as) s =
     (case queue s of
        [] \<Rightarrow> s
      | msg # rest \<Rightarrow>
          (case consume w a msg (docs s) of
             (Ack, slept, coll) \<Rightarrow> run w as (s\<lparr>docs := coll, queue := rest, acked := acked s @ [msg]\<rparr>)
           | (NackDrop, slept, coll) \<Rightarrow>
               run w as (s\<lparr>docs := coll, queue := rest, dropped := dropped s @ [msg]\<rparr>)
           | (NackRequeue, slept, coll) \<Rightarrow>
               run w as (s\<lparr>docs := coll, queue := rest @ [msg], requeued := Suc (requeued s),
                            backoffs := backoffs s @ (case slept of Some n \<Rightarrow> [n] | None \<Rightarrow> [])\<rparr>)))"

section \<open>The specification's wording, for comparison\<close>

text \<open>
  The validation probe as the specification words it: the \<open>Webhook-Id\<close> header is
  \<open>WebhookID\<close>, or the \<open>User-Agent\<close> header is \<open>MailerCloud\<close>, or the body parses as an
  object that is empty or has exactly one field, named \<open>test\<close>.
\<close>

definition spec_validation_probe :: "request \<Rightarrow> bool" where
  "spec_validation_probe r =
     (GetHeader r ''Webhook-Id'' = ''WebhookID''
      \<or> GetHeader r ''User-Agent'' = ''MailerCloud''
      \<or> (case body r of
            Some (JObject m) # _ \<Rightarrow> m = [] \<or> map fst m = [''test'']
          | _ \<Rightarrow> False))"

text \<open>The same, with the one field \<open>test\<close> holding a value other than \<^verbatim>\<open>null\<close>.\<close>

definition validation_probe :: "request \<Rightarrow> bool" where
  "validation_probe r =
     (GetHeader r ''Webhook-Id'' = ''WebhookID''
      \<or> GetHeader r ''User-Agent'' = ''MailerCloud''
      \<or> (case body r of
            Some (JObject m) # _ \<Rightarrow> m = [] \<or> (map fst m = [''test''] \<and> not_nil m ''test'')
          | _ \<Rightarrow> False))"

text \<open>
  Identity assignment as the specification words it. A field that is missing or not a
  string counts as empty. \<open>num\<close> prints the numeric \<open>ts\<close>: the specification says
  \<open>floor(ts)\<close>, which is \<open>floor_string\<close>. The result is \<open>None\<close> where the two rules say
  nothing (no identifier field and no component).
\<close>

definition spec_string_field :: "go_map \<Rightarrow> string \<Rightarrow> string" where
  "spec_string_field data k = (case as_string data k of Some v \<Rightarrow> v | None \<Rightarrow> [])"

definition floor_string :: "float64 \<Rightarrow> string" where
  "floor_string x = (case x of Float64 s m e \<Rightarrow>
     (let n = (if s then - int m else int m)
      in show_int (if 0 \<le> e then n * 2 ^ nat e else n div 2 ^ nat (- e))))"

definition spec_identity_sequence :: "(float64 \<Rightarrow> string) \<Rightarrow> go_map \<Rightarrow> string list" where
  "spec_identity_sequence num data =
     filter (\<lambda>c. c \<noteq> [])
       [spec_string_field data ''campaign_id'',
        spec_string_field data ''email'',
        (case as_float64 data ''ts'' of Some x \<Rightarrow> num x | None \<Rightarrow> []),
        spec_string_field data ''event'']"

definition spec_webhook_id :: "(float64 \<Rightarrow> string) \<Rightarrow> go_map \<Rightarrow> string option" where
  "spec_webhook_id num data =
     (case find (\<lambda>v. v \<noteq> [])
             (map (spec_string_field data)
                [''webhook_id'', ''message_id'', ''event_id'', ''delivery_id'', ''tracking_id'']) of
        Some v \<Rightarrow> Some v
      | None \<Rightarrow>
          (if spec_identity_sequence num data \<noteq> []
           then Some (''mc_'' @ Sprintf_x (spec_identity_sequence num data))
           else None))"

section \<open>The specification's scenarios as inputs\<close>

text \<open>
  Scenario 3: POST /webhook with \<open>Webhook-Id: abc123\<close> and the body
  \<^verbatim>\<open>{"event":"delivered","email":"a@b","campaign_id":"c","ts":1700000000}\<close>, the
  registry binding \<open>abc123\<close> to the tenant \<open>t1\<close>.
\<close>

definition scenario3_body :: go_map where
  "scenario3_body =
     [(''event'', JString ''delivered''), (''email'', JString ''a@b''),
      (''campaign_id'', JString ''c''), (''ts'', JNumber (Float64 False 1700000000 0))]"

definition scenario3_request :: request where
  "scenario3_request =
     \<lparr>Method = ''POST'', headers = [''Webhook-Id'' \<mapsto> ''abc123''],
      body = [Some (JObject scenario3_body)]\<rparr>"

definition scenario3_registry :: WebhookMappingService where
  "scenario3_registry = Some [''abc123'' \<mapsto> ''t1'']"

text \<open>
  Scenario 6: the queue holds one delivery, as the ingress publishes it, and every
  insertion into the store fails.
\<close>

definition scenario6_delivery :: delivery where
  "scenario6_delivery =
     \<lparr>Headers = Some [(''webhook_id'', JString ''w1''), (''webhook_type'', JString ''email_event''),
                      (''client_id'', JString ''t1'')],
      Body = Decoded \<lparr>j_webhook_id = ''w1'', j_webhook_type = ''email_event'',
                      j_event = ''delivered'', j_campaign_name = [], j_campaign_id = ''c'',
                      j_tag_name = [], j_date_event = [], j_ts = 1700000000, j_ts_event = 0,
                      j_emails = [], j_email = ''a@b'', j_URL = [], j_list_id = JNull,
                      j_reason = []\<rparr>\<rparr>"

definition insert_failing :: attempt where
  "insert_failing =
     \<lparr>w_received = 0, w_updated = 0, insert_fails = True,
      processed_update_fails = False, status_update_fails = False\<rparr>"

definition scenario6_broker :: broker where
  "scenario6_broker =
     \<lparr>docs = [], queue = [scenario6_delivery], acked = [], dropped = [], requeued = 0,
      backoffs = []\<rparr>"

section \<open>Header names\<close>

lemma canonical_known_keys:
  "CanonicalMIMEHeaderKey ''Webhook-Id'' = ''Webhook-Id''"
  "CanonicalMIMEHeaderKey ''User-Agent'' = ''User-Agent''"
  "CanonicalMIMEHeaderKey ''X-API-Key'' = ''X-Api-Key''"
  by code_simp+

section \<open>The rate limiter: daily cap, window and reachable states\<close>

lemma current_limit_cases:
  "current_limit c t0 now rl =
     (case limits rl c of
        None \<Rightarrow> \<lparr>dailyCount = 0, lastReset = (if now - t0 \<ge> 24 * Hour then now else t0),
                 webhookCount = 0, isPremium = False\<rparr>
      | Some l \<Rightarrow> (if now - lastReset l \<ge> 24 * Hour then l\<lparr>dailyCount := 0, lastReset := now\<rparr> else l))"
  by (simp add: current_limit_def Let_def split: option.splits)

lemma limits_AllowRequest:
  "limits (snd (AllowRequest c t0 now rl)) =
     (limits rl)(c \<mapsto> (let l = current_limit c t0 now rl
                      in if fst (AllowRequest c t0 now rl) then l\<lparr>dailyCount := dailyCount l + 1\<rparr> else l))"
  by (simp add: AllowRequest_def store_limit_def Let_def)

lemma plans_AllowRequest:
  "freePlan_dailyLimit (snd (AllowRequest c t0 now rl)) = freePlan_dailyLimit rl \<and>
   freePlan_webhookLimit (snd (AllowRequest c t0 now rl)) = freePlan_webhookLimit rl \<and>
   premiumPlan_webhookLimit (snd (AllowRequest c t0 now rl)) = premiumPlan_webhookLimit rl"
  by (simp add: AllowRequest_def store_limit_def Let_def)

lemma fst_AllowRequest_free:
  assumes "\<not> isPremium (current_limit c t0 now rl)"
    and "webhookCount (current_limit c t0 now rl) < freePlan_webhookLimit rl"
  shows "fst (AllowRequest c t0 now rl) \<longleftrightarrow> dailyCount (current_limit c t0 now rl) < freePlan_dailyLimit rl"
  using assms by (simp add: AllowRequest_def Let_def)

text \<open>
  What holds in every reachable state: the plan limits are those of
  \<^verbatim>\<open>NewRateLimiter\<close>, and every entry is a free-plan entry without registrations whose
  daily count is within the cap.
\<close>

lemma reachable_invariant:
  "reachable rl \<Longrightarrow>
     freePlan_dailyLimit rl = 10000 \<and> freePlan_webhookLimit rl = 20 \<and>
     premiumPlan_webhookLimit rl = 50 \<and>
     (\<forall>c l. limits rl c = Some l \<longrightarrow>
        webhookCount l = 0 \<and> \<not> isPremium l \<and> 0 \<le> dailyCount l \<and> dailyCount l \<le> 10000)"
proof (induction rule: reachable.induct)
  case reachable_new
  show ?case by (simp add: NewRateLimiter_def)
next
  case (reachable_allow rl clientID t0 now)
  let ?cur = "current_limit clientID t0 now rl"
  have cur: "webhookCount ?cur = 0 \<and> \<not> isPremium ?cur \<and> 0 \<le> dailyCount ?cur \<and> dailyCount ?cur \<le> 10000"
    using reachable_allow.IH by (auto simp: current_limit_cases split: option.splits)
  have ok: "fst (AllowRequest clientID t0 now rl) \<longleftrightarrow> dailyCount ?cur < 10000"
    using cur reachable_allow.IH by (simp add: fst_AllowRequest_free)
  show ?case
    using reachable_allow.IH cur ok
    by (auto simp: limits_AllowRequest plans_AllowRequest Let_def)
qed

lemma AllowRequest_accept:
  assumes "limits rl c = Some l" and "\<not> isPremium l"
    and "webhookCount l < freePlan_webhookLimit rl"
    and "now - lastReset l < 24 * Hour"
    and "dailyCount l < freePlan_dailyLimit rl"
  shows "AllowRequest c t0 now rl = (True, store_limit c (l\<lparr>dailyCount := dailyCount l + 1\<rparr>) rl)"
  using assms by (simp add: AllowRequest_def current_limit_def Let_def)

text \<open>Calls inside the window are all accepted while the count stays within the cap.\<close>

lemma AllowRequests_within:
  assumes "limits rl c = Some l" and "\<not> isPremium l"
    and "webhookCount l < freePlan_webhookLimit rl"
    and "\<forall>t \<in> set ts. snd t - lastReset l < 24 * Hour"
    and "dailyCount l + int (length ts) \<le> freePlan_dailyLimit rl"
  shows "AllowRequests c ts rl =
           (replicate (length ts) True,
            store_limit c (l\<lparr>dailyCount := dailyCount l + int (length ts)\<rparr>) rl)"
  using assms
proof (induction ts arbitrary: rl l)
  case Nil
  then show ?case by (simp add: store_limit_def fun_upd_idem)
next
  case (Cons t ts)
  let ?l' = "l\<lparr>dailyCount := dailyCount l + 1\<rparr>"
  let ?rl' = "store_limit c ?l' rl"
  have step: "AllowRequest c (fst t) (snd t) rl = (True, ?rl')"
    using Cons.prems by (intro AllowRequest_accept) auto
  have rest: "AllowRequests c ts ?rl' =
      (replicate (length ts) True,
       store_limit c (?l'\<lparr>dailyCount := dailyCount ?l' + int (length ts)\<rparr>) ?rl')"
    using Cons.prems by (intro Cons.IH) (auto simp: store_limit_def)
  have "AllowRequests c (t # ts) rl =
      (True # replicate (length ts) True,
       store_limit c (?l'\<lparr>dailyCount := dailyCount ?l' + int (length ts)\<rparr>) ?rl')"
    by (simp only: AllowRequests.simps step rest Let_def prod.case)
  then show ?case
    by (simp add: store_limit_def add.assoc)
qed

text \<open>
  A window that the first of 10000 calls opens (the entry is created, or its window has
  run out) ends with the count at the cap and the anchor where that call put it.
\<close>

lemma after_full_window:
  assumes "reachable rl"
    and opens: "case limits rl c of None \<Rightarrow> True | Some l \<Rightarrow> 24 * Hour \<le> snd (hd ts) - lastReset l"
    and anchor: "anchor = (case limits rl c of None \<Rightarrow> fst (hd ts) | Some l \<Rightarrow> snd (hd ts))"
    and len: "length ts = 10000"
    and within: "\<forall>t \<in> set ts. snd t - anchor < 24 * Hour"
  shows "AllowRequests c ts rl =
           (replicate 10000 True,
            store_limit c \<lparr>dailyCount = 10000, lastReset = anchor,
                           webhookCount = 0, isPremium = False\<rparr> rl)"
proof -
  from len obtain t ts' where ts: "ts = t # ts'" and len': "length ts' = 9999"
    by (cases ts) auto
  note inv = reachable_invariant [OF assms(1)]
  have plans: "freePlan_dailyLimit rl = 10000" "freePlan_webhookLimit rl = 20"
    using inv by simp_all
  let ?l = "\<lparr>dailyCount = 1, lastReset = anchor, webhookCount = 0, isPremium = False\<rparr>"
  have first: "AllowRequest c (fst t) (snd t) rl = (True, store_limit c ?l rl)"
  proof (cases "limits rl c")
    case None
    with anchor within plans show ?thesis
      by (simp add: ts AllowRequest_def current_limit_def Let_def)
  next
    case (Some l)
    with inv have l: "webhookCount l = 0" "\<not> isPremium l" by blast+
    from Some opens anchor have roll: "24 * Hour \<le> snd t - lastReset l" "anchor = snd t"
      by (simp_all add: ts)
    from l obtain d lr where fields:
      "l = \<lparr>dailyCount = d, lastReset = lr, webhookCount = 0, isPremium = False\<rparr>"
      by (cases l) auto
    with Some roll plans show ?thesis
      by (simp add: AllowRequest_def current_limit_def Let_def)
  qed
  have rest: "AllowRequests c ts' (store_limit c ?l rl) =
      (replicate (length ts') True,
       store_limit c (?l\<lparr>dailyCount := dailyCount ?l + int (length ts')\<rparr>) (store_limit c ?l rl))"
    using within plans len' by (intro AllowRequests_within) (auto simp: ts store_limit_def)
  have "AllowRequests c (t # ts') rl =
      (True # replicate (length ts') True,
       store_limit c (?l\<lparr>dailyCount := dailyCount ?l + int (length ts')\<rparr>) (store_limit c ?l rl))"
    by (simp only: AllowRequests.simps first rest Let_def prod.case)
  then show ?thesis
    using len' len by (simp add: ts store_limit_def flip: replicate_Suc)
qed

lemma HandleWebhook_rate_limited:
  assumes "Method r \<noteq> ''GET''" and "fst (ShouldBindJSON r) = Some data"
    and "GetHeader r ''User-Agent'' \<noteq> ''MailerCloud''"
    and "\<not> fst (AllowRequest (extractClientID m r data) (t_create env) (t_now env) (rateLimiter st))"
  shows "code (fst (HandleWebhook m env r st)) = 429 \<and>
         published (snd (HandleWebhook m env r st)) = published st"
  using assms by (simp add: HandleWebhook_def Let_def split_beta)

text \<open>
  C4. A tenant on the default tier whose window opens with the first of 10000 calls
  (its counter is created by that call, or its previous window has run out), all of
  them within 24 hours of the window's anchor: all 10000 calls are accepted; a further
  call within the window returns false, and the handler answers such a request with
  429 and publishes nothing; a call made once 24 hours have passed since the anchor
  resets the counter to zero and is accepted (the count is then 1, the window anchored
  at that call).
\<close>

theorem default_tier_daily_cap:
  assumes "reachable rl"
    and "case limits rl c of None \<Rightarrow> True | Some l \<Rightarrow> 24 * Hour \<le> snd (hd ts) - lastReset l"
    and "anchor = (case limits rl c of None \<Rightarrow> fst (hd ts) | Some l \<Rightarrow> snd (hd ts))"
    and "length ts = 10000"
    and "\<forall>t \<in> set ts. snd t - anchor < 24 * Hour"
  shows "fst (AllowRequests c ts rl) = replicate 10000 True
    \<and> (\<forall>t0 now. now - anchor < 24 * Hour \<longrightarrow>
          fst (AllowRequest c t0 now (snd (AllowRequests c ts rl))) = False)
    \<and> (\<forall>m env r st data.
          Method r \<noteq> ''GET'' \<and> fst (ShouldBindJSON r) = Some data
          \<and> GetHeader r ''User-Agent'' \<noteq> ''MailerCloud''
          \<and> extractClientID m r data = c
          \<and> rateLimiter st = snd (AllowRequests c ts rl)
          \<and> t_now env - anchor < 24 * Hour \<longrightarrow>
          code (fst (HandleWebhook m env r st)) = 429
          \<and> published (snd (HandleWebhook m env r st)) = published st)
    \<and> (\<forall>t0 now. 24 * Hour \<le> now - anchor \<longrightarrow>
          fst (AllowRequest c t0 now (snd (AllowRequests c ts rl))) = True
          \<and> map_option dailyCount
              (limits (snd (AllowRequest c t0 now (snd (AllowRequests c ts rl)))) c) = Some 1
          \<and> map_option lastReset
              (limits (snd (AllowRequest c t0 now (snd (AllowRequests c ts rl)))) c) = Some now)"
proof -
  let ?full = "\<lparr>dailyCount = 10000, lastReset = anchor, webhookCount = 0, isPremium = False\<rparr>"
  have run: "AllowRequests c ts rl = (replicate 10000 True, store_limit c ?full rl)"
    using assms by (rule after_full_window)
  have plans: "freePlan_dailyLimit rl = 10000" "freePlan_webhookLimit rl = 20"
    using reachable_invariant [OF assms(1)] by simp_all
  have reject: "fst (AllowRequest c t0 now (store_limit c ?full rl)) = False"
    if "now - anchor < 24 * Hour" for t0 now
    using that plans by (simp add: AllowRequest_def current_limit_def store_limit_def Let_def)
  have accept: "AllowRequest c t0 now (store_limit c ?full rl) =
      (True, store_limit c \<lparr>dailyCount = 1, lastReset = now, webhookCount = 0, isPremium = False\<rparr> rl)"
    if "24 * Hour \<le> now - anchor" for t0 now
    using that plans by (simp add: AllowRequest_def current_limit_def store_limit_def Let_def)
  have http: "code (fst (HandleWebhook m env r st)) = 429
      \<and> published (snd (HandleWebhook m env r st)) = published st"
    if "Method r \<noteq> ''GET''" "fst (ShouldBindJSON r) = Some data"
       "GetHeader r ''User-Agent'' \<noteq> ''MailerCloud''" "extractClientID m r data = c"
       "rateLimiter st = snd (AllowRequests c ts rl)" "t_now env - anchor < 24 * Hour"
    for m env r st data
  proof -
    have "\<not> fst (AllowRequest c (t_create env) (t_now env) (rateLimiter st))"
      using that(5,6) reject [of "t_now env" "t_create env"] by (simp add: run)
    then have "\<not> fst (AllowRequest (extractClientID m r data) (t_create env) (t_now env) (rateLimiter st))"
      by (simp add: that(4))
    with that(1-3) show ?thesis
      by (intro HandleWebhook_rate_limited)
  qed
  show ?thesis
    using reject accept http by (simp add: run store_limit_def)
qed

theorem default_tier_daily_cap_witness:
  "fst (AllowRequests ''t2'' (replicate 10000 (0, 0)) NewRateLimiter) = replicate 10000 True
   \<and> fst (AllowRequest ''t2'' 1 1 (snd (AllowRequests ''t2'' (replicate 10000 (0, 0)) NewRateLimiter))) = False
   \<and> code (fst (HandleWebhook None
        \<lparr>t_create = 1, t_now = 1, t_id = 1, t_received = 1, publish_fails = False\<rparr>
        \<lparr>Method = ''POST'', headers = [''Webhook-Id'' \<mapsto> ''t2''],
          body = [Some (JObject [(''event'', JString ''delivered'')])]\<rparr>
        \<lparr>rateLimiter = snd (AllowRequests ''t2'' (replicate 10000 (0, 0)) NewRateLimiter),
          published = []\<rparr>)) = 429
   \<and> fst (AllowRequest ''t2'' (24 * Hour) (24 * Hour)
        (snd (AllowRequests ''t2'' (replicate 10000 (0, 0)) NewRateLimiter))) = True"
proof -
  let ?ts = "replicate 10000 (0::int, 0::int)"
  let ?r = "\<lparr>Method = ''POST'', headers = [''Webhook-Id'' \<mapsto> ''t2''],
          body = [Some (JObject [(''event'', JString ''delivered'')])]\<rparr>"
  let ?env = "\<lparr>t_create = 1, t_now = 1, t_id = 1, t_received = 1, publish_fails = False\<rparr>"
  let ?st = "\<lparr>rateLimiter = snd (AllowRequests ''t2'' ?ts NewRateLimiter), published = []\<rparr>"
  have h1: "reachable NewRateLimiter" by (rule reachable_new)
  have h2: "case limits NewRateLimiter ''t2'' of None \<Rightarrow> True
            | Some l \<Rightarrow> 24 * Hour \<le> snd (hd ?ts) - lastReset l"
    by (simp add: NewRateLimiter_def)
  have h3: "(0::int) = (case limits NewRateLimiter ''t2'' of None \<Rightarrow> fst (hd ?ts) | Some l \<Rightarrow> snd (hd ?ts))"
    by (simp add: NewRateLimiter_def)
  have h4: "length ?ts = 10000" by simp
  have h5: "\<forall>t \<in> set ?ts. snd t - 0 < 24 * Hour" by (simp add: Hour_def)
  note cap = default_tier_daily_cap [OF h1 h2 h3 h4 h5]
  have a: "fst (AllowRequests ''t2'' ?ts NewRateLimiter) = replicate 10000 True"
    using cap by blast
  have b: "fst (AllowRequest ''t2'' 1 1 (snd (AllowRequests ''t2'' ?ts NewRateLimiter))) = False"
  proof -
    have "(1::int) - 0 < 24 * Hour" by (simp add: Hour_def)
    with cap show ?thesis by blast
  qed
  have c: "code (fst (HandleWebhook None ?env ?r ?st)) = 429"
  proof -
    have "Method ?r \<noteq> ''GET'' \<and> fst (ShouldBindJSON ?r) = Some [(''event'', JString ''delivered'')]
          \<and> GetHeader ?r ''User-Agent'' \<noteq> ''MailerCloud''
          \<and> extractClientID None ?r [(''event'', JString ''delivered'')] = ''t2''
          \<and> rateLimiter ?st = snd (AllowRequests ''t2'' ?ts NewRateLimiter)
          \<and> t_now ?env - 0 < 24 * Hour"
      by (simp add: Hour_def ShouldBindJSON_def bind_map_def GetHeader_def canonical_known_keys extractClientID_def)
    with cap show ?thesis by blast
  qed
  have d: "fst (AllowRequest ''t2'' (24 * Hour) (24 * Hour)
        (snd (AllowRequests ''t2'' ?ts NewRateLimiter))) = True"
  proof -
    have "24 * Hour \<le> 24 * Hour - 0" by simp
    with cap show ?thesis by blast
  qed
  from a b c d show ?thesis by blast
qed

text \<open>
  C5, as amended. The window a tenant's first event creates is anchored to the instant
  of that event (one of the two clock readings of the call), not to midnight; a call
  resets the window (count to zero, anchor to the current instant) exactly when at
  least 24 hours have passed since the anchor, and otherwise leaves anchor and count
  as they were, before the accepted call itself is counted.
\<close>

theorem window_anchor_and_reset:
  "map_option lastReset (limits (snd (AllowRequest c t0 now rl)) c) =
     Some (case limits rl c of
             None \<Rightarrow> (if 24 * Hour \<le> now - t0 then now else t0)
           | Some l \<Rightarrow> (if 24 * Hour \<le> now - lastReset l then now else lastReset l))
   \<and> map_option dailyCount (limits (snd (AllowRequest c t0 now rl)) c) =
     Some ((case limits rl c of
              None \<Rightarrow> 0
            | Some l \<Rightarrow> (if 24 * Hour \<le> now - lastReset l then 0 else dailyCount l))
           + (if fst (AllowRequest c t0 now rl) then 1 else 0))"
  by (simp add: limits_AllowRequest current_limit_cases Let_def split: option.splits)

text \<open>
  C5 as stated fails: a first event at 01:00 UTC anchors the window at 01:00, while
  midnight of that day is the instant 0.
\<close>

theorem midnight_anchor_counterexample:
  "map_option lastReset (limits (snd (AllowRequest ''t1'' Hour Hour NewRateLimiter)) ''t1'') = Some Hour
   \<and> utc_midnight Hour = 0 \<and> Hour \<noteq> 0"
  by (simp add: limits_AllowRequest current_limit_cases Let_def NewRateLimiter_def
        utc_midnight_def Hour_def)

text \<open>
  C10. In every reachable limiter state no entry has a registration count other than 0
  or the premium flag set; so a call never takes the premium branch nor the
  registration-cap rejection, and it returns false exactly when the client's daily
  count, taken as 0 when the entry is new or its window has run out, has reached 10000.
\<close>

theorem reachable_limiter_branches:
  assumes "reachable rl"
  shows "(\<forall>c l. limits rl c = Some l \<longrightarrow> webhookCount l = 0 \<and> \<not> isPremium l)
    \<and> \<not> isPremium (current_limit clientID t0 now rl)
    \<and> webhookCount (current_limit clientID t0 now rl) < freePlan_webhookLimit rl
    \<and> dailyCount (current_limit clientID t0 now rl) =
        (case limits rl clientID of
           None \<Rightarrow> 0
         | Some l \<Rightarrow> (if 24 * Hour \<le> now - lastReset l then 0 else dailyCount l))
    \<and> (fst (AllowRequest clientID t0 now rl) = False
         \<longleftrightarrow> 10000 \<le> dailyCount (current_limit clientID t0 now rl))"
proof -
  note inv = reachable_invariant [OF assms]
  have cur: "webhookCount (current_limit clientID t0 now rl) = 0
             \<and> \<not> isPremium (current_limit clientID t0 now rl)"
    using inv by (auto simp: current_limit_cases split: option.splits)
  have cnt: "dailyCount (current_limit clientID t0 now rl) =
        (case limits rl clientID of
           None \<Rightarrow> 0
         | Some l \<Rightarrow> (if 24 * Hour \<le> now - lastReset l then 0 else dailyCount l))"
    by (simp add: current_limit_cases split: option.splits)
  have dec: "fst (AllowRequest clientID t0 now rl)
             \<longleftrightarrow> dailyCount (current_limit clientID t0 now rl) < 10000"
    using cur inv by (simp add: fst_AllowRequest_free)
  from inv have "\<forall>c l. limits rl c = Some l \<longrightarrow> webhookCount l = 0 \<and> \<not> isPremium l"
    by blast
  with cur cnt dec inv show ?thesis by auto
qed

theorem reachable_limiter_branches_witness:
  "reachable (snd (AllowRequest ''t1'' 0 0 NewRateLimiter))
   \<and> \<not> isPremium (current_limit ''t1'' 5 5 (snd (AllowRequest ''t1'' 0 0 NewRateLimiter)))
   \<and> dailyCount (current_limit ''t1'' 5 5 (snd (AllowRequest ''t1'' 0 0 NewRateLimiter))) = 1
   \<and> fst (AllowRequest ''t1'' 5 5 (snd (AllowRequest ''t1'' 0 0 NewRateLimiter))) = True"
proof -
  have h: "reachable (snd (AllowRequest ''t1'' 0 0 NewRateLimiter))"
    by (intro reachable_allow reachable_new)
  have l: "limits (snd (AllowRequest ''t1'' 0 0 NewRateLimiter)) ''t1'' =
      Some \<lparr>dailyCount = 1, lastReset = 0, webhookCount = 0, isPremium = False\<rparr>"
    by (simp add: AllowRequest_def current_limit_def store_limit_def NewRateLimiter_def Hour_def Let_def)
  from h reachable_limiter_branches [OF h, of "''t1''" 5 5] show ?thesis
    by (auto simp: l Hour_def)
qed

section \<open>Identity assignment\<close>

lemma show_nat_nonempty: "show_nat n \<noteq> []"
  by (subst show_nat.simps) simp

lemma Sprintf_f0_nonempty: "Sprintf_f0 x \<noteq> []"
  by (cases x) (simp add: Sprintf_f0_def show_nat_nonempty)

lemma first_id_find:
  "first_id data ks = find (\<lambda>v. v \<noteq> []) (map (spec_string_field data) ks)"
  by (induction ks) (auto simp: spec_string_field_def as_string_def split: option.splits json.splits)

lemma string_component_filter:
  "string_component data k = filter (\<lambda>c. c \<noteq> []) [spec_string_field data k]"
  by (simp add: string_component_def spec_string_field_def as_string_def split: option.splits json.splits)

lemma components_spec: "components data = spec_identity_sequence Sprintf_f0 data"
  by (simp add: components_def spec_identity_sequence_def string_component_filter
        as_float64_def Sprintf_f0_nonempty split: option.splits json.splits)

text \<open>
  C6, as amended. The identifier is the first of \<open>webhook_id\<close>, \<open>message_id\<close>,
  \<open>event_id\<close>, \<open>delivery_id\<close>, \<open>tracking_id\<close> that is a non-empty string, verbatim;
  otherwise, when one of \<open>campaign_id\<close>, \<open>email\<close>, \<open>event\<close> is a non-empty string or
  \<open>ts\<close> is a number, it is \<open>mc_\<close> followed by the hex dump of the sequence
  \<open>campaign_id\<close>, \<open>email\<close>, \<open>ts\<close>, \<open>event\<close> without its empty strings, where \<open>ts\<close> is
  printed rounded to the nearest integer (ties to even), not floored. It is a function of
  the body alone in both cases; only the last resort uses the clock.
\<close>

theorem webhook_id_assignment:
  "generateWebhookID data now =
     (case spec_webhook_id Sprintf_f0 data of Some v \<Rightarrow> v | None \<Rightarrow> ''mc_'' @ show_int now)"
  by (simp add: generateWebhookID_def spec_webhook_id_def first_id_find components_spec idFields_def
        split: option.splits)

text \<open>
  C6 as stated fails: for the body \<^verbatim>\<open>{"ts": 2.75}\<close> the floor is 2, giving
  \<open>mc_[32]\<close>, and the code prints 3, giving \<open>mc_[33]\<close>.
\<close>

theorem webhook_id_floor_counterexample:
  "spec_webhook_id floor_string [(''ts'', JNumber (Float64 False 11 (- 2)))] = Some ''mc_[32]''
   \<and> generateWebhookID [(''ts'', JNumber (Float64 False 11 (- 2)))] 0 = ''mc_[33]''"
  by (simp add: spec_webhook_id_def spec_identity_sequence_def spec_string_field_def as_string_def
        as_float64_def floor_string_def show_int_def generateWebhookID_def idFields_def
        components_def string_component_def Sprintf_f0_def round_half_even_def Sprintf_x_def
        hex_string_def hex_byte_def digit_char_def show_nat.simps Let_def)

section \<open>The router and the handler\<close>

lemma validation_probe_flag:
  assumes "validation_probe r"
  shows "(GetHeader r ''Webhook-Id'' = ''WebhookID'' \<or> GetHeader r ''User-Agent'' = ''MailerCloud'')
         \<or> (case fst (ShouldBindJSON r) of
               Some requestBody \<Rightarrow>
                 length requestBody = 0 \<or> (length requestBody = 1 \<and> not_nil requestBody ''test'')
             | None \<Rightarrow> False)"
proof (cases "GetHeader r ''Webhook-Id'' = ''WebhookID'' \<or> GetHeader r ''User-Agent'' = ''MailerCloud''")
  case True
  then show ?thesis by simp
next
  case False
  with assms obtain m rest where b: "body r = Some (JObject m) # rest"
      and m: "m = [] \<or> (map fst m = [''test''] \<and> not_nil m ''test'')"
    by (auto simp: validation_probe_def split: list.splits option.splits json.splits)
  have "fst (ShouldBindJSON r) = Some m"
    by (simp add: ShouldBindJSON_def b bind_map_def)
  moreover from m have "length m = 0 \<or> (length m = 1 \<and> not_nil m ''test'')"
    by (auto dest: arg_cong [where f = length])
  ultimately show ?thesis by simp
qed

text \<open>
  C1, as amended. A POST /webhook whose \<open>Webhook-Id\<close> header is \<open>WebhookID\<close>, or whose
  \<open>User-Agent\<close> header is \<open>MailerCloud\<close>, or whose body parses as an object that is
  empty or has exactly one field, named \<open>test\<close>, with a value other than null, is
  answered 200 with \<open>success: true\<close>; nothing is published and the rate limiter is left
  as it was.
\<close>

theorem validation_probe_accepted:
  assumes "validation_probe r"
  shows "code (fst (POST_webhook cfg webhookMapper env r st)) = 200
         \<and> map_of (reply (fst (POST_webhook cfg webhookMapper env r st))) ''success'' = Some (JBool True)
         \<and> map_of (reply (fst (POST_webhook cfg webhookMapper env r st))) ''message''
             = Some (JString ''Webhook validation successful'')
         \<and> published (snd (POST_webhook cfg webhookMapper env r st)) = published st
         \<and> rateLimiter (snd (POST_webhook cfg webhookMapper env r st)) = rateLimiter st"
  using validation_probe_flag [OF assms]
  by (simp add: POST_webhook_def Let_def split_beta validation_reply_def)

theorem validation_probe_accepted_witness:
  "validation_probe
     \<lparr>Method = ''POST'', headers = Map.empty, body = [Some (JObject [(''test'', JBool True)])]\<rparr>
   \<and> code (fst (POST_webhook \<lparr>APIKeyHeader = ''X-API-Key'', APIKeys = []\<rparr> None
        \<lparr>t_create = 0, t_now = 0, t_id = 0, t_received = 0, publish_fails = False\<rparr>
        \<lparr>Method = ''POST'', headers = Map.empty, body = [Some (JObject [(''test'', JBool True)])]\<rparr>
        \<lparr>rateLimiter = NewRateLimiter, published = []\<rparr>)) = 200
   \<and> published (snd (POST_webhook \<lparr>APIKeyHeader = ''X-API-Key'', APIKeys = []\<rparr> None
        \<lparr>t_create = 0, t_now = 0, t_id = 0, t_received = 0, publish_fails = False\<rparr>
        \<lparr>Method = ''POST'', headers = Map.empty, body = [Some (JObject [(''test'', JBool True)])]\<rparr>
        \<lparr>rateLimiter = NewRateLimiter, published = []\<rparr>)) = []"
proof -
  have h: "validation_probe
     \<lparr>Method = ''POST'', headers = Map.empty, body = [Some (JObject [(''test'', JBool True)])]\<rparr>"
    by (simp add: validation_probe_def GetHeader_def canonical_known_keys not_nil_def)
  from h validation_probe_accepted [OF h, where st = "\<lparr>rateLimiter = NewRateLimiter, published = []\<rparr>"]
  show ?thesis by simp
qed

text \<open>
  C1 as stated fails: the body \<^verbatim>\<open>{"test": null}\<close> is an object with exactly one
  field named \<open>test\<close>, and without headers the request is answered 401.
\<close>

theorem null_test_probe_counterexample:
  "spec_validation_probe
     \<lparr>Method = ''POST'', headers = Map.empty, body = [Some (JObject [(''test'', JNull)])]\<rparr>
   \<and> fst (POST_webhook \<lparr>APIKeyHeader = ''X-API-Key'', APIKeys = []\<rparr> None
        \<lparr>t_create = 0, t_now = 0, t_id = 0, t_received = 0, publish_fails = False\<rparr>
        \<lparr>Method = ''POST'', headers = Map.empty, body = [Some (JObject [(''test'', JNull)])]\<rparr>
        \<lparr>rateLimiter = NewRateLimiter, published = []\<rparr>)
      = \<lparr>code = 401, reply = [(''error'', JString ''Missing API key'')]\<rparr>"
  by (simp add: spec_validation_probe_def POST_webhook_def GetHeader_def canonical_known_keys ShouldBindJSON_def
        bind_map_def not_nil_def Let_def)

text \<open>
  C2 fails on the code. The router has bound the body before it calls the handler, the
  handler's own binding finds the stream drained, and scenario 3 is answered 400 with
  nothing published and the rate limiter untouched, whatever the configuration, the
  clock and the state.
\<close>

theorem scenario3_rejected:
  "POST_webhook cfg scenario3_registry env scenario3_request st =
     (\<lparr>code = 400, reply = [(''error'', JString ''Invalid JSON payload'')]\<rparr>, st)"
  by (simp add: POST_webhook_def scenario3_request_def scenario3_body_def GetHeader_def canonical_known_keys
        ShouldBindJSON_def bind_map_def not_nil_def HandleWebhook_def Let_def)

text \<open>
  More generally, no request whose body is a single JSON document (or is empty) is ever
  published through the router, and none is charged to the rate limiter: it is a probe,
  or it fails authentication, or the handler finds the body drained.
\<close>

lemma single_document_never_published:
  assumes "length (body r) \<le> 1"
  shows "snd (POST_webhook cfg webhookMapper env r st) = st
         \<and> code (fst (POST_webhook cfg webhookMapper env r st)) \<in> {200, 400, 401}"
proof -
  have drained: "body (snd (ShouldBindJSON r)) = []"
    using assms by (cases "body r") (simp_all add: ShouldBindJSON_def)
  have same: "Method (snd (ShouldBindJSON r)) = Method r"
    by (cases "body r") (simp_all add: ShouldBindJSON_def)
  have handler: "HandleWebhook webhookMapper env (snd (ShouldBindJSON r)) st =
      (if Method r = ''GET''
       then (\<lparr>code = 200, reply = [(''message'', JString ''Webhook endpoint is valid''),
                                     (''status'', JString ''ok'')]\<rparr>, st)
       else (\<lparr>code = 400, reply = [(''error'', JString ''Invalid JSON payload'')]\<rparr>, st))"
    using drained same by (simp add: HandleWebhook_def ShouldBindJSON_def)
  show ?thesis
    by (simp add: POST_webhook_def Let_def split_beta handler validation_reply_def)
qed

text \<open>
  The handler alone, given the same request with its body unread, does what C2 says:
  200, one publication, the tenant \<open>t1\<close>, the event name and the composite identifier.
\<close>

lemma scenario3_handler_alone:
  assumes "\<not> publish_fails env"
    and "HandleWebhook scenario3_registry env scenario3_request
           \<lparr>rateLimiter = NewRateLimiter, published = []\<rparr> = (resp, st)"
  shows "code resp = 200 \<and> length (published st) = 1
     \<and> ClientID (hd (published st)) = ''t1''
     \<and> Event (hd (published st)) = ''delivered''
     \<and> WebhookID (hd (published st)) = ''mc_[63 614062 31373030303030303030 64656c697665726564]''"
  using assms
  apply (simp add: HandleWebhook_def scenario3_request_def scenario3_registry_def GetHeader_def canonical_known_keys
        ShouldBindJSON_def bind_map_def extractClientID_def Let_def AllowRequest_def current_limit_def
        NewRateLimiter_def store_limit_def Hour_def split: if_splits)
   apply (auto simp add: extract_fields_def scenario3_body_def as_string_def as_float64_def Let_def
        new_event_def generateWebhookID_def idFields_def components_def string_component_def
        Sprintf_f0_def round_half_even_def Sprintf_x_def hex_string_def hex_byte_def
        digit_char_def show_nat.simps)
  done

section \<open>Storage and worker\<close>

lemma map_of_optional_string:
  "map_of (optional_string k v) k' = (if k' = k \<and> v \<noteq> [] then Some (BString v) else None)"
  by (simp add: optional_string_def)

lemma insert_document_optional:
  "map_of (insert_document event) ''campaign_id'' =
       (if CampaignID event = [] then None else Some (BString (CampaignID event)))"
  "map_of (insert_document event) ''campaign_name'' =
       (if CampaignName event = [] then None else Some (BString (CampaignName event)))"
  "map_of (insert_document event) ''tag_name'' =
       (if TagName event = [] then None else Some (BString (TagName event)))"
  "map_of (insert_document event) ''date_event'' =
       (if DateEvent event = [] then None else Some (BString (DateEvent event)))"
  "map_of (insert_document event) ''url'' =
       (if URL event = [] then None else Some (BString (URL event)))"
  "map_of (insert_document event) ''email'' =
       (if Email event = [] then None else Some (BString (Email event)))"
  "map_of (insert_document event) ''emails'' =
       (if Emails event = [] then None else Some (BStrings (Emails event)))"
  "map_of (insert_document event) ''list_id'' =
       (if ListID event = JNull then None else Some (BValue (ListID event)))"
  "map_of (insert_document event) ''reason'' =
       (if Reason event = [] then None else Some (BString (Reason event)))"
  by (simp_all add: insert_document_def map_of_optional_string map_add_def)

lemma insert_document_base:
  "map_of (insert_document event) ''webhook_id'' = Some (BString (WebhookID event))"
  "map_of (insert_document event) ''webhook_type'' = Some (BString (WebhookType event))"
  "map_of (insert_document event) ''client_id'' = Some (BString (ClientID event))"
  "map_of (insert_document event) ''event'' = Some (BString (Event event))"
  "map_of (insert_document event) ''received_at'' = Some (BTime (ReceivedAt event))"
  "map_of (insert_document event) ''status'' = Some (BString (Status event))"
  "map_of (insert_document event) ''retry_count'' = Some (BInt (RetryCount event))"
  by (simp_all add: insert_document_def)

lemma insert_document_keys:
  "set (map fst (insert_document event)) \<subseteq>
     {''webhook_id'', ''webhook_type'', ''client_id'', ''event'', ''received_at'', ''status'',
      ''retry_count'', ''campaign_id'', ''campaign_name'', ''tag_name'', ''date_event'', ''url'',
      ''email'', ''emails'', ''list_id'', ''reason''}"
  by (auto simp: insert_document_def optional_string_def split: if_splits)

text \<open>
  C8, as amended. A successful insert appends one document. Each of the optional fields
  \<open>campaign_id\<close>, \<open>campaign_name\<close>, \<open>tag_name\<close>, \<open>date_event\<close>, \<open>url\<close>, \<open>email\<close>,
  \<open>reason\<close> is in it exactly when the event's string is not empty, \<open>emails\<close> exactly when
  the sequence is not empty, \<open>list_id\<close> exactly when the value is not null. The fields
  \<open>webhook_id\<close>, \<open>webhook_type\<close>, \<open>client_id\<close>, \<open>event\<close>, \<open>received_at\<close>, \<open>status\<close>
  (an empty status written as \<open>pending\<close>) and \<open>retry_count\<close> are always written,
  empty or not, and the document has no other key. A failed insert stores nothing.
\<close>

theorem insert_writes_set_fields:
  "(let event' = (if Status event = [] then event\<lparr>Status := EventStatusPending\<rparr> else event);
        doc = insert_document event'
    in InsertEvent False event coll = (False, event', coll @ [doc])
     \<and> InsertEvent True event coll = (True, event', coll)
     \<and> map_of doc ''campaign_id'' = (if CampaignID event = [] then None else Some (BString (CampaignID event)))
     \<and> map_of doc ''campaign_name'' = (if CampaignName event = [] then None else Some (BString (CampaignName event)))
     \<and> map_of doc ''tag_name'' = (if TagName event = [] then None else Some (BString (TagName event)))
     \<and> map_of doc ''date_event'' = (if DateEvent event = [] then None else Some (BString (DateEvent event)))
     \<and> map_of doc ''url'' = (if URL event = [] then None else Some (BString (URL event)))
     \<and> map_of doc ''email'' = (if Email event = [] then None else Some (BString (Email event)))
     \<and> map_of doc ''emails'' = (if Emails event = [] then None else Some (BStrings (Emails event)))
     \<and> map_of doc ''list_id'' = (if ListID event = JNull then None else Some (BValue (ListID event)))
     \<and> map_of doc ''reason'' = (if Reason event = [] then None else Some (BString (Reason event)))
     \<and> map_of doc ''webhook_id'' = Some (BString (WebhookID event))
     \<and> map_of doc ''webhook_type'' = Some (BString (WebhookType event))
     \<and> map_of doc ''client_id'' = Some (BString (ClientID event))
     \<and> map_of doc ''event'' = Some (BString (Event event))
     \<and> map_of doc ''received_at'' = Some (BTime (ReceivedAt event))
     \<and> map_of doc ''status'' = Some (BString (if Status event = [] then EventStatusPending else Status event))
     \<and> map_of doc ''retry_count'' = Some (BInt (RetryCount event))
     \<and> set (map fst doc) \<subseteq>
          {''webhook_id'', ''webhook_type'', ''client_id'', ''event'', ''received_at'', ''status'',
           ''retry_count'', ''campaign_id'', ''campaign_name'', ''tag_name'', ''date_event'', ''url'',
           ''email'', ''emails'', ''list_id'', ''reason''})"
  unfolding Let_def
  by (intro conjI insert_document_keys)
     (simp_all add: InsertEvent_def Let_def insert_document_optional insert_document_base)

text \<open>
  C8 as stated fails: the event whose strings are all empty is stored with
  \<open>webhook_id\<close>, \<open>webhook_type\<close>, \<open>client_id\<close> and \<open>event\<close> present and empty.
\<close>

theorem insert_empty_event_counterexample:
  "Event (new_event [] 0) = [] \<and> WebhookType (new_event [] 0) = []
   \<and> InsertEvent False (new_event [] 0) [] =
       (False, new_event EventStatusPending 0,
        [[(''webhook_id'', BString []), (''webhook_type'', BString []), (''client_id'', BString []),
          (''event'', BString []), (''received_at'', BTime 0), (''status'', BString ''pending''),
          (''retry_count'', BInt 0)]])"
  by (simp add: InsertEvent_def insert_document_def optional_string_def new_event_def
        EventStatusPending_def Let_def)

text \<open>
  C9. A delivery whose body does not parse is nacked without requeue and the store is
  left as it was: in the loop it leaves the queue for good (it is not delivered again)
  and the documents are unchanged.
\<close>

theorem malformed_delivery_dropped:
  assumes "Body msg = Malformed"
  shows "consume w a msg coll = (NackDrop, None, coll)
         \<and> run w [a] (s\<lparr>queue := msg # rest\<rparr>) = s\<lparr>queue := rest, dropped := dropped s @ [msg]\<rparr>"
  using assms by (simp add: consume_def Unmarshal_def)

theorem malformed_delivery_dropped_witness:
  "Body \<lparr>Headers = None, Body = Malformed\<rparr> = Malformed
   \<and> consume NewWorker insert_failing \<lparr>Headers = None, Body = Malformed\<rparr> [] = (NackDrop, None, [])
   \<and> run NewWorker [insert_failing]
        (scenario6_broker\<lparr>queue := [\<lparr>Headers = None, Body = Malformed\<rparr>]\<rparr>)
       = scenario6_broker\<lparr>queue := [],
           dropped := dropped scenario6_broker @ [\<lparr>Headers = None, Body = Malformed\<rparr>]\<rparr>"
proof -
  have h: "Body \<lparr>Headers = None, Body = Malformed\<rparr> = Malformed" by simp
  from h malformed_delivery_dropped [OF h, where w = NewWorker and a = insert_failing
      and coll = "[]" and s = scenario6_broker and rest = "[]"]
  show ?thesis by blast
qed

text \<open>
  Whatever the delivery and the store, a failed insertion ends in a requeue as long as
  \<open>maxRetries\<close> is above 1: the event the loop builds always starts at retry count 0.
\<close>

lemma failed_insert_requeues:
  assumes "Body msg = Decoded j" and "insert_fails a" and "1 < maxRetries w"
  shows "fst (consume w a msg coll) = NackRequeue \<and> fst (snd (consume w a msg coll)) = Some 1"
proof -
  let ?event = "apply_headers (Headers msg) (the (Unmarshal (Body msg) (new_event EventStatusPending (w_received a))))"
  have count: "RetryCount ?event = 0"
    by (simp add: assms(1) Unmarshal_def new_event_def apply_headers_def Let_def)
  have "processEvent a ?event coll =
      (True, (if Status ?event = [] then ?event\<lparr>Status := EventStatusPending\<rparr> else ?event), coll)"
    using assms(2) by (simp add: processEvent_def InsertEvent_def Let_def)
  then show ?thesis
    using assms(1,3) count
    by (simp add: consume_def Unmarshal_def handleError_def Let_def)
qed

lemma scenario6_consume:
  "consume NewWorker insert_failing scenario6_delivery [] = (NackRequeue, Some 1, [])"
  by (simp add: consume_def Unmarshal_def scenario6_delivery_def insert_failing_def new_event_def
        apply_headers_def header_string_def as_string_def processEvent_def InsertEvent_def
        handleError_def NewWorker_def UpdateEventStatus_def EventStatusPending_def Let_def)

lemma scenario6_loop:
  "run NewWorker (replicate n insert_failing) (scenario6_broker\<lparr>requeued := k, backoffs := bs\<rparr>)
     = scenario6_broker\<lparr>requeued := k + n, backoffs := bs @ replicate n 1\<rparr>"
proof (induction n arbitrary: k bs)
  case 0
  show ?case by simp
next
  case (Suc n)
  have "run NewWorker (replicate (Suc n) insert_failing) (scenario6_broker\<lparr>requeued := k, backoffs := bs\<rparr>)
      = run NewWorker (replicate n insert_failing) (scenario6_broker\<lparr>requeued := Suc k, backoffs := bs @ [1]\<rparr>)"
    by (simp add: scenario6_broker_def scenario6_consume)
  also have "\<dots> = scenario6_broker\<lparr>requeued := Suc k + n, backoffs := (bs @ [1]) @ replicate n 1\<rparr>"
    by (rule Suc.IH)
  finally show ?case by (simp add: replicate_append_same)
qed

text \<open>
  C3 fails on the code. With every insertion failing, each delivery is decoded into a
  new event whose retry count is 0, \<^verbatim>\<open>handleError\<close> raises it to 1, which is below
  \<open>maxRetries = 3\<close>, and the delivery is nacked with requeue: after any number \<open>n\<close> of
  iterations the delivery of scenario 6 has been requeued \<open>n\<close> times with the backoff of
  retry 1 each time, it is still in the queue, nothing was acknowledged and no record
  was written.
\<close>

theorem retry_budget_never_exhausted:
  "run NewWorker (replicate n insert_failing) scenario6_broker
     = scenario6_broker\<lparr>requeued := n, backoffs := replicate n 1\<rparr>"
  using scenario6_loop [where n = n and k = 0 and bs = "[]"] by (simp add: scenario6_broker_def)

section \<open>The backoff delay\<close>

lemma bit_length_le: "m < 2 ^ j \<Longrightarrow> bit_length m \<le> j"
proof (induction j arbitrary: m)
  case 0
  then show ?case by (simp add: bit_length.simps)
next
  case (Suc j)
  show ?case
  proof (cases "m = 0")
    case True
    then show ?thesis by (simp add: bit_length.simps)
  next
    case False
    from Suc.prems have "m div 2 < 2 ^ j" by simp
    then have "bit_length (m div 2) \<le> j" by (rule Suc.IH)
    with False show ?thesis by (subst bit_length.simps) simp
  qed
qed

lemma bit_length_gt: "2 ^ j \<le> m \<Longrightarrow> j < bit_length m"
proof (induction j arbitrary: m)
  case 0
  then show ?case by (subst bit_length.simps) simp
next
  case (Suc j)
  then have "2 ^ j \<le> m div 2" by simp
  then have "j < bit_length (m div 2)" by (rule Suc.IH)
  moreover have "0 < (2::nat) ^ Suc j" by simp
  with Suc.prems have "m \<noteq> 0" by linarith
  ultimately show ?case by (subst bit_length.simps) simp
qed

lemma bit_length_eq: "2 ^ j \<le> m \<Longrightarrow> m < 2 ^ Suc j \<Longrightarrow> bit_length m = Suc j"
  using bit_length_le [of m "Suc j"] bit_length_gt [of j m] by simp

lemma round_to_even_0: "round_to_even m 0 = m"
  by (simp add: round_to_even_def)

lemma round53_exact: "m < 2 ^ 53 \<Longrightarrow> round53 s m e = Float64 s m e"
  using bit_length_le [of m 53] by (simp add: round53_def round_to_even_0)

lemma round_to_even_range:
  "m div 2 ^ k \<le> round_to_even m k \<and> round_to_even m k \<le> m div 2 ^ k + 1"
  by (simp add: round_to_even_def Let_def)

lemma round_to_even_dvd: "2 ^ k dvd m \<Longrightarrow> round_to_even m k = m div 2 ^ k"
  by (auto simp: round_to_even_def Let_def)

lemma round_to_even_lower:
  assumes "2 ^ k dvd L" and "L \<le> m"
  shows "L \<le> round_to_even m k * 2 ^ k"
proof -
  from assms(1) obtain c where L: "L = c * 2 ^ k" by (auto simp: dvd_def mult.commute)
  with assms(2) have "c \<le> m div 2 ^ k"
    by (simp add: less_eq_div_iff_mult_less_eq)
  also have "\<dots> \<le> round_to_even m k" using round_to_even_range by blast
  finally show ?thesis by (simp add: L)
qed

lemma round_to_even_upper:
  assumes "2 ^ k dvd U" and "m \<le> U"
  shows "round_to_even m k * 2 ^ k \<le> U"
proof -
  from assms(1) obtain c where U: "U = c * 2 ^ k" by (auto simp: dvd_def mult.commute)
  show ?thesis
  proof (cases "m = U")
    case True
    then show ?thesis using assms(1) by (simp add: round_to_even_dvd)
  next
    case False
    with assms(2) have "m < c * 2 ^ k" by (simp add: U)
    then have "m div 2 ^ k < c" by (simp add: div_less_iff_less_mult)
    then have "round_to_even m k \<le> c" using round_to_even_range [of m k] by linarith
    then show ?thesis by (simp add: U)
  qed
qed

lemma shift_div:
  "(Q * 2 ^ K) div 2 ^ j = (if j \<le> K then Q * 2 ^ (K - j) else Q div 2 ^ (j - K))" for Q :: nat
proof (cases "j \<le> K")
  case True
  then have "(2::nat) ^ K = 2 ^ (K - j) * 2 ^ j" by (simp flip: power_add)
  then show ?thesis using True by simp
next
  case False
  then have "(2::nat) ^ j = 2 ^ K * 2 ^ (j - K)" by (simp flip: power_add)
  then show ?thesis using False by (simp add: mult.commute [of Q])
qed

lemma int64_of_scaled:
  "int64_of_float64 (Float64 False Q (int K - int j)) =
     (if int ((Q * 2 ^ K) div 2 ^ j) < 2 ^ 63 then int ((Q * 2 ^ K) div 2 ^ j) else - (2 ^ 63))"
proof -
  have nonneg: "- (2 ^ 63) \<le> int v" for v :: nat
    by (rule order_trans [of _ 0]) simp_all
  show ?thesis
  proof (cases "j \<le> K")
    case True
    then have "nat (int K - int j) = K - j" by simp
    with True nonneg [of "Q * 2 ^ (K - j)"] show ?thesis
      by (simp add: int64_of_float64_def shift_div Let_def)
  next
    case False
    then have "nat (- (int K - int j)) = j - K" by simp
    with False nonneg [of "Q div 2 ^ (j - K)"] show ?thesis
      by (simp add: int64_of_float64_def shift_div Let_def zdiv_int)
  qed
qed


lemma jitter_eq:
  assumes "k < 2 ^ 53"
  shows "jitter k = Float64 False (round_to_even (k + 2 ^ 53) 1) (- 53)"
proof -
  have half: "fmul (Float64 False k (- 53)) (Float64 False 1 (- 1)) = Float64 False k (- 54)"
    using assms by (simp add: fmul_def round53_exact)
  have len: "bit_length (k + 2 ^ 53) = Suc 53"
    using assms by (intro bit_length_eq) simp_all
  have "fadd (Float64 False k (- 54)) (Float64 False 1 (- 1)) = round53 False (k + 2 ^ 53) (- 54)"
    by (simp add: fadd_def Let_def nat_add_distrib)
  also have "\<dots> = Float64 False (round_to_even (k + 2 ^ 53) 1) (- 53)"
    by (simp only: round53_def len Let_def) simp
  finally show ?thesis unfolding jitter_def half .
qed

lemma jitter_range:
  assumes "k < 2 ^ 53"
  shows "2 ^ 52 \<le> round_to_even (k + 2 ^ 53) 1 \<and> round_to_even (k + 2 ^ 53) 1 \<le> 2 ^ 53"
proof -
  have "(2::nat) ^ 53 div 2 ^ 1 \<le> (k + 2 ^ 53) div 2 ^ 1"
    by (rule div_le_mono) simp
  then have lo: "2 ^ 52 \<le> (k + 2 ^ 53) div 2 ^ 1" by simp
  have "(k + 2 ^ 53) div 2 ^ 1 \<le> (2 ^ 54 - 1) div 2 ^ 1"
    using assms by (intro div_le_mono) simp
  then have hi: "(k + 2 ^ 53) div 2 ^ 1 + 1 \<le> 2 ^ 53" by simp
  from lo hi round_to_even_range [of "k + 2 ^ 53" 1] show ?thesis
    by linarith
qed

lemma backoff_eq:
  "fmul (float64_of_int (baseDelay NewWorker)) (Float64 False 1 e) = Float64 False 10000000000 e"
  by (simp add: NewWorker_def float64_of_int_def fmul_def round53_exact)

lemma backoff_scaled:
  assumes "k < 2 ^ 53"
  obtains X :: nat where "9765625 * 2 ^ 62 \<le> X" and "X \<le> 9765625 * 2 ^ 63"
    and "\<And>i. i \<le> 53 \<Longrightarrow> calculateBackoff NewWorker (int i + 1) k =
           (if int (X div 2 ^ (53 - i)) < 2 ^ 63 then int (X div 2 ^ (53 - i)) else - (2 ^ 63))"
proof -
  define q where "q = round_to_even (k + 2 ^ 53) 1"
  define m where "m = 10000000000 * q"
  define K where "K = bit_length m - 53"
  define X where "X = round_to_even m K * 2 ^ K"
  from jitter_range [OF assms] have q: "2 ^ 52 \<le> q" "q \<le> 2 ^ 53"
    by (simp_all add: q_def)
  have m_lo: "9765625 * 2 ^ 62 \<le> m" and m_hi: "m \<le> 9765625 * 2 ^ 63"
    using q by (simp_all add: m_def)
  from m_hi have "m < 2 ^ 87" by simp
  then have "bit_length m \<le> 87" by (rule bit_length_le)
  then have K: "K \<le> 34" by (simp add: K_def)
  then have p62: "(2::nat) ^ K dvd 2 ^ 62" and p63: "(2::nat) ^ K dvd 2 ^ 63"
    by (intro le_imp_power_dvd; simp)+
  have dvd: "2 ^ K dvd (9765625::nat) * 2 ^ 62" "2 ^ K dvd (9765625::nat) * 2 ^ 63"
    using p62 p63 by (blast intro: dvd_mult)+
  have X_lo: "9765625 * 2 ^ 62 \<le> X"
    unfolding X_def using dvd(1) m_lo by (rule round_to_even_lower)
  have X_hi: "X \<le> 9765625 * 2 ^ 63"
    unfolding X_def using dvd(2) m_hi by (rule round_to_even_upper)
  have prod: "fmul (Float64 False 10000000000 e) (jitter k) = Float64 False (round_to_even m K) (e - 53 + int K)" for e
    by (simp add: jitter_eq [OF assms] fmul_def round53_def Let_def m_def K_def q_def)
  have sleep: "calculateBackoff NewWorker (int i + 1) k =
      (if int (X div 2 ^ (53 - i)) < 2 ^ 63 then int (X div 2 ^ (53 - i)) else - (2 ^ 63))"
    if "i \<le> 53" for i
  proof -
    have e: "int i + 1 - 1 - 53 + int K = int K - int (53 - i)"
      using that by simp
    have "calculateBackoff NewWorker (int i + 1) k =
        int64_of_float64 (fmul (fmul (float64_of_int (baseDelay NewWorker))
                                  (Float64 False 1 (int i + 1 - 1))) (jitter k))"
      by (simp only: calculateBackoff_def Let_def)
    also have "\<dots> = int64_of_float64 (Float64 False (round_to_even m K) (int i + 1 - 1 - 53 + int K))"
      by (simp only: backoff_eq prod)
    also have "\<dots> = int64_of_float64 (Float64 False (round_to_even m K) (int K - int (53 - i)))"
      by (simp only: e)
    also have "\<dots> = (if int (X div 2 ^ (53 - i)) < 2 ^ 63 then int (X div 2 ^ (53 - i)) else - (2 ^ 63))"
      by (simp only: int64_of_scaled X_def)
    finally show ?thesis .
  qed
  from X_lo X_hi sleep show ?thesis by (rule that)
qed

lemma backoff_in_range:
  assumes "X \<le> 9765625 * 2 ^ 63" and "i \<le> 29"
  shows "int (X div 2 ^ (53 - i)) < 2 ^ 63"
proof -
  have "X div 2 ^ (53 - i) \<le> ((9765625::nat) * 2 ^ 63) div 2 ^ (53 - i)"
    using assms(1) by (rule div_le_mono)
  also have "\<dots> = 9765625 * 2 ^ (63 - (53 - i))"
    by (simp only: shift_div) simp
  also have "\<dots> \<le> 9765625 * 2 ^ 39"
    using assms(2) by (intro mult_le_mono2 power_increasing) simp_all
  finally show ?thesis by simp
qed

lemma backoff_overflow:
  assumes "9765625 * 2 ^ 62 \<le> X"
  shows "\<not> int (X div 2 ^ (53 - 31)) < 2 ^ 63"
proof -
  have "((9765625::nat) * 2 ^ 62) div 2 ^ (53 - 31) \<le> X div 2 ^ (53 - 31)"
    using assms by (rule div_le_mono)
  then show ?thesis by simp
qed

lemma backoff_bounds:
  assumes "k < 2 ^ 53" and "i \<le> 29"
  shows "5000000000 * 2 ^ i \<le> calculateBackoff NewWorker (int i + 1) k
       \<and> calculateBackoff NewWorker (int i + 1) k \<le> 10000000000 * 2 ^ i"
proof -
  from backoff_scaled [OF assms(1)] obtain X :: nat
    where lo: "9765625 * 2 ^ 62 \<le> X" and hi: "X \<le> 9765625 * 2 ^ 63"
      and scaled: "\<And>i. i \<le> 53 \<Longrightarrow> calculateBackoff NewWorker (int i + 1) k =
           (if int (X div 2 ^ (53 - i)) < 2 ^ 63 then int (X div 2 ^ (53 - i)) else - (2 ^ 63))"
    by blast
  have sleep: "calculateBackoff NewWorker (int i + 1) k = int (X div 2 ^ (53 - i))" if "i \<le> 29" for i
    using that scaled [of i] backoff_in_range [OF hi that] by simp
  have "((9765625::nat) * 2 ^ 62) div 2 ^ (53 - i) \<le> X div 2 ^ (53 - i)"
    using lo by (rule div_le_mono)
  moreover have "((9765625::nat) * 2 ^ 62) div 2 ^ (53 - i) = 9765625 * 2 ^ (62 - (53 - i))"
    by (simp only: shift_div) simp
  moreover have "(9765625::nat) * 2 ^ (62 - (53 - i)) = 5000000000 * 2 ^ i"
  proof -
    have "62 - (53 - i) = 9 + i" using assms(2) by simp
    then show ?thesis by (simp add: power_add)
  qed
  ultimately have l: "5000000000 * 2 ^ i \<le> X div 2 ^ (53 - i)" by simp
  have "X div 2 ^ (53 - i) \<le> ((9765625::nat) * 2 ^ 63) div 2 ^ (53 - i)"
    using hi by (rule div_le_mono)
  moreover have "((9765625::nat) * 2 ^ 63) div 2 ^ (53 - i) = 9765625 * 2 ^ (63 - (53 - i))"
    by (simp only: shift_div) simp
  moreover have "(9765625::nat) * 2 ^ (63 - (53 - i)) = 10000000000 * 2 ^ i"
  proof -
    have "63 - (53 - i) = 10 + i" using assms(2) by simp
    then show ?thesis by (simp add: power_add)
  qed
  ultimately have u: "X div 2 ^ (53 - i) \<le> 10000000000 * 2 ^ i" by simp
  from l have "int (5000000000 * 2 ^ i) \<le> int (X div 2 ^ (53 - i))" by (simp only: of_nat_le_iff)
  moreover from u have "int (X div 2 ^ (53 - i)) \<le> int (10000000000 * 2 ^ i)" by (simp only: of_nat_le_iff)
  ultimately show ?thesis by (simp add: sleep [OF assms(2)])
qed

lemma backoff_step:
  assumes "k < 2 ^ 53" and "i \<le> 28"
  shows "calculateBackoff NewWorker (int i + 1) k \<le> calculateBackoff NewWorker (int (Suc i) + 1) k"
proof -
  from backoff_scaled [OF assms(1)] obtain X :: nat
    where hi: "X \<le> 9765625 * 2 ^ 63"
      and scaled: "\<And>i. i \<le> 53 \<Longrightarrow> calculateBackoff NewWorker (int i + 1) k =
           (if int (X div 2 ^ (53 - i)) < 2 ^ 63 then int (X div 2 ^ (53 - i)) else - (2 ^ 63))"
    by blast
  have sleep: "calculateBackoff NewWorker (int i + 1) k = int (X div 2 ^ (53 - i))" if "i \<le> 29" for i
    using that scaled [of i] backoff_in_range [OF hi that] by simp
  have "(2::nat) ^ (53 - Suc i) \<le> 2 ^ (53 - i)"
    by (intro power_increasing) simp_all
  then have "X div 2 ^ (53 - i) \<le> X div 2 ^ (53 - Suc i)"
    by (intro div_le_mono2) simp_all
  moreover have "i \<le> 29" "Suc i \<le> 29" using assms(2) by simp_all
  ultimately show ?thesis by (simp only: sleep of_nat_le_iff)
qed

text \<open>
  C7, as amended. For every retry number \<open>n\<close> from 1 to 30 and every draw \<open>k / 2^53\<close>
  of the random source: the jitter is \<open>q / 2^53\<close> with \<open>2^52 \<le> q \<le> 2^53\<close>, that is a
  float64 in the closed interval from 0.5 to 1.0; the sleep is the float64 product of
  \<open>10 s * 2^(n-1)\<close> and the jitter, truncated to whole nanoseconds; it lies between
  \<open>5 s * 2^(n-1)\<close> and \<open>10 s * 2^(n-1)\<close>; and from retry 2 on it is at least the sleep
  of the retry before for the same draw, so also summed over all draws (the expected
  sleep under a uniform draw, times \<open>2^53\<close>).
\<close>

theorem backoff_delay:
  assumes "1 \<le> n" and "n \<le> 30" and "k < 2 ^ 53"
  shows "jitter k = Float64 False (round_to_even (k + 2 ^ 53) 1) (- 53)
     \<and> 2 ^ 52 \<le> round_to_even (k + 2 ^ 53) 1 \<and> round_to_even (k + 2 ^ 53) 1 \<le> 2 ^ 53
     \<and> calculateBackoff NewWorker n k =
         int64_of_float64 (fmul (Float64 False 10000000000 (n - 1)) (jitter k))
     \<and> 5000000000 * 2 ^ nat (n - 1) \<le> calculateBackoff NewWorker n k
     \<and> calculateBackoff NewWorker n k \<le> 10000000000 * 2 ^ nat (n - 1)
     \<and> (2 \<le> n \<longrightarrow> calculateBackoff NewWorker (n - 1) k \<le> calculateBackoff NewWorker n k)
     \<and> (2 \<le> n \<longrightarrow>
          sum (calculateBackoff NewWorker (n - 1)) draws \<le> sum (calculateBackoff NewWorker n) draws)"
proof -
  define i where "i = nat (n - 1)"
  have n: "n = int i + 1" and i: "i \<le> 29"
    using assms(1,2) by (simp_all add: i_def)
  have formula: "calculateBackoff NewWorker n k =
         int64_of_float64 (fmul (Float64 False 10000000000 (n - 1)) (jitter k))"
    by (simp only: calculateBackoff_def Let_def backoff_eq)
  have bounds: "5000000000 * 2 ^ nat (n - 1) \<le> calculateBackoff NewWorker n k
     \<and> calculateBackoff NewWorker n k \<le> 10000000000 * 2 ^ nat (n - 1)"
    using backoff_bounds [OF assms(3) i] by (simp add: n)
  have step: "calculateBackoff NewWorker (n - 1) j \<le> calculateBackoff NewWorker n j"
    if "2 \<le> n" and "j < 2 ^ 53" for j
  proof -
    from that(1) obtain i' where i': "i = Suc i'" by (cases i) (simp_all add: i_def)
    with i have "i' \<le> 28" by simp
    from backoff_step [OF that(2) this]
    have "calculateBackoff NewWorker (int i' + 1) j \<le> calculateBackoff NewWorker (int (Suc i') + 1) j" .
    moreover have "n - 1 = int i' + 1" and "n = int (Suc i') + 1"
      by (simp_all add: n i')
    ultimately show ?thesis by (simp only:)
  qed
  have total: "sum (calculateBackoff NewWorker (n - 1)) draws \<le> sum (calculateBackoff NewWorker n) draws"
    if "2 \<le> n"
  proof (rule sum_mono)
    fix j assume "j \<in> draws"
    then have "j < 2 ^ 53" by (simp only: draws_def lessThan_iff)
    with that show "calculateBackoff NewWorker (n - 1) j \<le> calculateBackoff NewWorker n j"
      by (rule step)
  qed
  from jitter_eq [OF assms(3)] jitter_range [OF assms(3)] formula bounds step [OF _ assms(3)] total
  show ?thesis by blast
qed

theorem backoff_delay_witness:
  "10000000000 \<le> calculateBackoff NewWorker 2 0
   \<and> calculateBackoff NewWorker 2 0 \<le> 20000000000
   \<and> calculateBackoff NewWorker 1 0 \<le> calculateBackoff NewWorker 2 0
   \<and> sum (calculateBackoff NewWorker 1) draws \<le> sum (calculateBackoff NewWorker 2) draws"
proof -
  have h: "(1::int) \<le> 2" "(2::int) \<le> 30" "(0::nat) < 2 ^ 53" by simp_all
  note delay = backoff_delay [OF h]
  from delay have "5000000000 * 2 ^ nat (2 - 1) \<le> calculateBackoff NewWorker 2 0" by blast
  then have a: "10000000000 \<le> calculateBackoff NewWorker 2 0" by simp
  from delay have "calculateBackoff NewWorker 2 0 \<le> 10000000000 * 2 ^ nat (2 - 1)" by blast
  then have b: "calculateBackoff NewWorker 2 0 \<le> 20000000000" by simp
  from delay have "(2::int) \<le> 2 \<longrightarrow> calculateBackoff NewWorker (2 - 1) 0 \<le> calculateBackoff NewWorker 2 0"
    by blast
  then have c: "calculateBackoff NewWorker 1 0 \<le> calculateBackoff NewWorker 2 0" by simp
  from delay have "(2::int) \<le> 2 \<longrightarrow>
      sum (calculateBackoff NewWorker (2 - 1)) draws \<le> sum (calculateBackoff NewWorker 2) draws"
    by blast
  then have d: "sum (calculateBackoff NewWorker 1) draws \<le> sum (calculateBackoff NewWorker 2) draws"
    by simp
  from a b c d show ?thesis by blast
qed

lemma bit_length_top: "bit_length 90071992547409920000000000 = 87"
  by (simp add: bit_length.simps)

lemma top_product:
  "fmul (Float64 False 10000000000 e) (Float64 False 9007199254740992 (- 53)) =
     Float64 False 5242880000000000 (e - 19)"
  by (simp add: fmul_def round53_def bit_length_top round_to_even_def)

lemma top_jitter: "jitter 9007199254740991 = Float64 False 9007199254740992 (- 53)"
proof -
  have "jitter 9007199254740991 = Float64 False (round_to_even (9007199254740991 + 2 ^ 53) 1) (- 53)"
    by (rule jitter_eq) simp
  then show ?thesis by (simp add: round_to_even_def)
qed

lemma retry32_overflows:
  assumes "k < 2 ^ 53"
  shows "calculateBackoff NewWorker 32 k = - (2 ^ 63)"
proof -
  from backoff_scaled [OF assms] obtain X :: nat
    where lo: "9765625 * 2 ^ 62 \<le> X"
      and scaled: "\<And>i. i \<le> 53 \<Longrightarrow> calculateBackoff NewWorker (int i + 1) k =
           (if int (X div 2 ^ (53 - i)) < 2 ^ 63 then int (X div 2 ^ (53 - i)) else - (2 ^ 63))"
    by blast
  have "calculateBackoff NewWorker (int 31 + 1) k =
      (if int (X div 2 ^ (53 - 31)) < 2 ^ 63 then int (X div 2 ^ (53 - 31)) else - (2 ^ 63))"
    by (rule scaled) simp
  with backoff_overflow [OF lo] show ?thesis by simp
qed

lemma retry31_least:
  assumes "k < 2 ^ 53"
  shows "- (2 ^ 63) \<le> calculateBackoff NewWorker 31 k"
proof -
  from backoff_scaled [OF assms] obtain X :: nat
    where scaled: "\<And>i. i \<le> 53 \<Longrightarrow> calculateBackoff NewWorker (int i + 1) k =
           (if int (X div 2 ^ (53 - i)) < 2 ^ 63 then int (X div 2 ^ (53 - i)) else - (2 ^ 63))"
    by blast
  have "calculateBackoff NewWorker (int 30 + 1) k =
      (if int (X div 2 ^ (53 - 30)) < 2 ^ 63 then int (X div 2 ^ (53 - 30)) else - (2 ^ 63))"
    by (rule scaled) simp
  moreover have "- (2 ^ 63) \<le> int (X div 2 ^ (53 - 30))"
    by (rule order_trans [of _ 0]) simp_all
  ultimately show ?thesis by simp
qed

lemma bit_length_half: "bit_length 45035996273704960000000000 = 86"
  by (simp add: bit_length.simps)

lemma retry31_draw0: "calculateBackoff NewWorker 31 0 = 5368709120000000000"
proof -
  have j: "jitter 0 = Float64 False 4503599627370496 (- 53)"
    using jitter_eq [of 0] by (simp add: round_to_even_def)
  have "fmul (Float64 False 10000000000 30) (Float64 False 4503599627370496 (- 53)) =
      Float64 False 5242880000000000 10"
    by (simp add: fmul_def round53_def bit_length_half round_to_even_def)
  moreover have "calculateBackoff NewWorker 31 0 =
      int64_of_float64 (fmul (Float64 False 10000000000 (31 - 1)) (jitter 0))"
    by (simp only: calculateBackoff_def Let_def backoff_eq)
  ultimately show ?thesis by (simp add: j int64_of_float64_def)
qed

lemma mean_backoff_drops:
  "sum (calculateBackoff NewWorker 32) draws < sum (calculateBackoff NewWorker 31) draws"
proof (rule sum_strict_mono_ex1)
  show "finite draws" by (simp only: draws_def finite_lessThan)
  show "\<forall>k\<in>draws. calculateBackoff NewWorker 32 k \<le> calculateBackoff NewWorker 31 k"
  proof
    fix k assume "k \<in> draws"
    then have k: "k < 2 ^ 53" by (simp only: draws_def lessThan_iff)
    from retry32_overflows [OF k] retry31_least [OF k]
    show "calculateBackoff NewWorker 32 k \<le> calculateBackoff NewWorker 31 k" by simp
  qed
  show "\<exists>k\<in>draws. calculateBackoff NewWorker 32 k < calculateBackoff NewWorker 31 k"
  proof
    show "0 \<in> draws" by (simp only: draws_def lessThan_iff) simp
    have "calculateBackoff NewWorker 32 0 = - (2 ^ 63)" by (rule retry32_overflows) simp
    then show "calculateBackoff NewWorker 32 0 < calculateBackoff NewWorker 31 0"
      by (simp add: retry31_draw0)
  qed
qed

text \<open>
  C7 as stated fails. At the largest draw the jitter is exactly 1.0, outside the
  half-open interval, and retry 1 sleeps the full 10 s. At that draw retry 31 leaves the
  int64 range and the sleep is the least int64, below the sleep of retry 30. At retry 32
  every draw overflows, so the sleep summed over all draws is below that of retry 31.
\<close>

theorem backoff_jitter_overflow_counterexample:
  "jitter 9007199254740991 = Float64 False 9007199254740992 (- 53)
   \<and> calculateBackoff NewWorker 1 9007199254740991 = 10000000000
   \<and> calculateBackoff NewWorker 30 9007199254740991 = 5368709120000000000
   \<and> calculateBackoff NewWorker 31 9007199254740991 = - 9223372036854775808
   \<and> sum (calculateBackoff NewWorker 32) draws < sum (calculateBackoff NewWorker 31) draws"
proof -
  have sleep: "calculateBackoff NewWorker n 9007199254740991 =
      int64_of_float64 (Float64 False 5242880000000000 (n - 1 - 19))" for n
    by (simp only: calculateBackoff_def Let_def backoff_eq top_jitter top_product)
  have "jitter 9007199254740991 = Float64 False 9007199254740992 (- 53)
   \<and> calculateBackoff NewWorker 1 9007199254740991 = 10000000000
   \<and> calculateBackoff NewWorker 30 9007199254740991 = 5368709120000000000
   \<and> calculateBackoff NewWorker 31 9007199254740991 = - 9223372036854775808"
    by (simp add: top_jitter sleep int64_of_float64_def)
  with mean_backoff_drops show ?thesis by blast
qed

end
